theory Spec2Isabelle
  imports Main "HOL-Library.Word"
begin

unbundle bit_operations_syntax

section \<open>The event-driven cluster (cl\_libevent2/src/cl\_cluster.c)\<close>

subsection \<open>C strings: str\_split and atoi\<close>

text \<open>
  A C string is modelled by the list of its bytes before the terminating NUL.

  \<^verbatim>\<open>str_split(split_c, str, v)\<close> cuts \<open>str\<close> at every occurrence of \<open>split_c\<close> and
  appends a pointer to each piece to the vector; the piece after the last separator is
  appended only when it is not empty (\<^verbatim>\<open>if (prev != str)\<close>), while an empty piece before a
  separator is appended. \<open>seg\<close> is the piece between \<open>prev\<close> and \<open>str\<close>.
\<close>

fun str_split_from :: "char \<Rightarrow> string \<Rightarrow> string \<Rightarrow> string list" where
  "str_split_from split_c seg [] = (if seg = [] then [] else [seg])"
| "str_split_from split_c seg (c # str) =
     (if split_c = c then seg # str_split_from split_c [] str
      else str_split_from split_c (seg @ [c]) str)"

definition str_split :: "char \<Rightarrow> string \<Rightarrow> string list" where
  "str_split split_c str = str_split_from split_c [] str"

text \<open>
  \<^verbatim>\<open>atoi\<close> of the C library: leading white space is skipped, one optional sign is read,
  then decimal digits up to the first byte that is not a digit. A value outside the range
  of \<^verbatim>\<open>int\<close> is undefined behaviour in C; the model returns the mathematical value.
\<close>

definition isspace :: "char \<Rightarrow> bool" where
  "isspace c = (c = CHR '' '' \<or> (9 \<le> (of_char c :: nat) \<and> (of_char c :: nat) \<le> 13))"

definition isdigit :: "char \<Rightarrow> bool" where
  "isdigit c = (48 \<le> (of_char c :: nat) \<and> (of_char c :: nat) \<le> 57)"

fun atoi_digits :: "int \<Rightarrow> string \<Rightarrow> int" where
  "atoi_digits acc [] = acc"
| "atoi_digits acc (c # cs) =
     (if isdigit c then atoi_digits (acc * 10 + (int (of_char c) - 48)) cs else acc)"

definition atoi :: "string \<Rightarrow> int" where
  "atoi s =
     (case dropWhile isspace s of
        [] \<Rightarrow> 0
      | c # cs \<Rightarrow>
          if c = CHR ''-'' then - atoi_digits 0 cs
          else if c = CHR ''+'' then atoi_digits 0 cs
          else atoi_digits 0 (c # cs))"

subsection \<open>Nodes and their health counters\<close>

text \<open>
  \<^verbatim>\<open>struct sockaddr_in\<close>: the address and the port (the family is always AF\_INET and
  the padding zero, so \<^verbatim>\<open>memcmp\<close> on two of them is equality of these two fields).
\<close>

record sockaddr_in =
  sin_addr :: "32 word"
  sin_port :: "16 word"

text \<open>
  \<^verbatim>\<open>cl_cluster_node\<close>. The header that declares it and the constant
  \<^verbatim>\<open>CLUSTER_NODE_MAGIC\<close> is not among the sources: \<open>node_MAGIC_valid\<close> holds whether the
  \<^verbatim>\<open>MAGIC\<close> field equals that constant, the only use the code makes of it.
  \<open>dunned\<close>, \<open>dun_count\<close>, \<open>partition_generation\<close> and \<open>partition_last_req_ms\<close>
  are \<^verbatim>\<open>cf_atomic_int\<close> counters, modelled as integers. \<open>rc_count\<close> is the reference
  count kept by \<^verbatim>\<open>cf_client_rc\<close>, \<open>conn_q\<close> the queue of idle file descriptors.
\<close>

record cl_cluster_node =
  node_MAGIC_valid :: bool
  name :: string
  dunned :: int
  dun_count :: int
  sockaddr_in_v :: "sockaddr_in list"
  conn_q :: "int list"
  partition_generation :: int
  partition_last_req_ms :: int
  timer_event_registered :: bool
  rc_count :: int

text \<open>
  \<^verbatim>\<open>enum cl_cluster_dun_type\<close>: the six reasons named by \<^verbatim>\<open>cl_cluster_dun_human\<close> and
  handled by the switch of \<^verbatim>\<open>cl_cluster_node_dun\<close>, and \<^verbatim>\<open>DUN_BAD_NAME\<close>, which
  \<^verbatim>\<open>node_timer_infocb_fn\<close> passes and the switch leaves to its \<^verbatim>\<open>default\<close> branch.
\<close>

datatype cl_cluster_dun_type =
    DUN_USER_TIMEOUT
  | DUN_INFO_FAIL
  | DUN_REPLICAS_FETCH
  | DUN_NETWORK_ERROR
  | DUN_RESTART_FD
  | DUN_NO_SOCKADDR
  | DUN_BAD_NAME

definition CL_NODE_DUN_THRESHOLD :: int where
  "CL_NODE_DUN_THRESHOLD = 800"

fun dun_factor :: "cl_cluster_dun_type \<Rightarrow> int" where
  "dun_factor DUN_USER_TIMEOUT = 1"
| "dun_factor DUN_INFO_FAIL = 300"
| "dun_factor DUN_REPLICAS_FETCH = 1000"
| "dun_factor DUN_NO_SOCKADDR = 1000"
| "dun_factor DUN_NETWORK_ERROR = 50"
| "dun_factor DUN_RESTART_FD = 50"
| "dun_factor DUN_BAD_NAME = 1"

definition cl_cluster_node_dun :: "cl_cluster_node \<Rightarrow> cl_cluster_dun_type \<Rightarrow> cl_cluster_node" where
  "cl_cluster_node_dun cn type =
     (if \<not> node_MAGIC_valid cn then cn
      else
        let cn1 = cn\<lparr>dun_count := dun_count cn + dun_factor type\<rparr>
        in if dun_count cn1 > CL_NODE_DUN_THRESHOLD then cn1\<lparr>dunned := 1\<rparr> else cn1)"

definition cl_cluster_node_ok :: "cl_cluster_node \<Rightarrow> cl_cluster_node" where
  "cl_cluster_node_ok cn =
     (if \<not> node_MAGIC_valid cn then cn else cn\<lparr>dun_count := 0, dunned := 0\<rparr>)"

text \<open>
  What happens to the health counters of one node over time: a run of calls of
  \<^verbatim>\<open>cl_cluster_node_dun\<close> and \<^verbatim>\<open>cl_cluster_node_ok\<close>, oldest first.
\<close>

datatype health_event = Dun cl_cluster_dun_type | Ok

fun node_events :: "cl_cluster_node \<Rightarrow> health_event list \<Rightarrow> cl_cluster_node" where
  "node_events cn [] = cn"
| "node_events cn (Dun t # es) = node_events (cl_cluster_node_dun cn t) es"
| "node_events cn (Ok # es) = node_events (cl_cluster_node_ok cn) es"

subsection \<open>The cluster, the nodes it points to, and the world around them\<close>

text \<open>
  \<^verbatim>\<open>ev2citrusleaf_cluster\<close>. \<open>MAGIC_valid\<close> holds whether \<^verbatim>\<open>MAGIC == CLUSTER_MAGIC\<close>,
  \<open>base_set\<close> whether \<^verbatim>\<open>asc->base\<close> is not null. \<open>host_str_v\<close> and \<open>host_port_v\<close>
  are the two parallel vectors of seed hosts; \<open>node_v\<close> is the vector of node pointers
  and \<open>request_q\<close> the queue of parked requests.
\<close>

record ev2citrusleaf_cluster =
  MAGIC_valid :: bool
  follow :: bool
  shutdown :: bool
  base_set :: bool
  n_partitions :: int
  host_str_v :: "string list"
  host_port_v :: "int list"
  node_v :: "nat list"
  last_node :: int
  requests_in_progress :: int
  infos_in_progress :: int
  request_q :: "nat list"

text \<open>
  An asynchronous info request accepted by \<^verbatim>\<open>ev2citrusleaf_info_host\<close>: the address it
  goes to, the names it asks for, and the callback with its \<^verbatim>\<open>udata\<close> (the probed
  address for \<^verbatim>\<open>cluster_ping_node_fn\<close>, the node pointer for the two node callbacks).
\<close>

datatype info_callback =
    Cluster_ping_node_fn sockaddr_in
  | Node_timer_infocb_fn nat
  | Node_replicas_fn nat

record info_request =
  req_addr :: sockaddr_in
  req_names :: string
  req_callback :: info_callback

text \<open>
  What \<^verbatim>\<open>cluster_partitions_process\<close> does for the entries of a replicas list, in order:
  the two log messages, and the calls of \<^verbatim>\<open>cl_partition_table_set(asc, cn, ns, partid, write)\<close>,
  a function of the partition table, whose file is not among the sources.
\<close>

datatype partition_event =
    Cf_info_bad_namespace string
  | Cf_warn_out_of_scale int int
  | Cl_partition_table_set nat string int bool

text \<open>
  The state the cluster code works on: the cluster, the heap of nodes (a node pointer is
  an index into \<open>heap\<close>; a freed node stays there with its magic destroyed), the info
  requests in flight, and the parked requests handed back to \<^verbatim>\<open>ev2citrusleaf_restart\<close>.
  The statistics counters, the log output (but for the messages of the replicas lists)
  and the measurements of elapsed time are left out: no decision of the code reads them.
\<close>

record world =
  asc :: ev2citrusleaf_cluster
  heap :: "cl_cluster_node list"
  info_requests :: "info_request list"
  restarted :: "nat list"

text \<open>
  What the code gets from outside: the immediate resolver (\<open>Some sin\<close> when
  \<^verbatim>\<open>cl_lookup_immediate\<close> returns 0), the return value of \<^verbatim>\<open>ev2citrusleaf_info_host\<close> for
  an address and a list of names, the clock \<^verbatim>\<open>cf_getms\<close>, the return value of
  \<^verbatim>\<open>event_add\<close> for a node timer, and whether allocations succeed.
\<close>

record env =
  cl_lookup_immediate :: "string \<Rightarrow> int \<Rightarrow> sockaddr_in option"
  ev2citrusleaf_info_host :: "sockaddr_in \<Rightarrow> string \<Rightarrow> int"
  cf_getms :: int
  event_add :: int
  malloc_ok :: bool

definition node_upd :: "world \<Rightarrow> nat \<Rightarrow> (cl_cluster_node \<Rightarrow> cl_cluster_node) \<Rightarrow> world" where
  "node_upd w cn f = w\<lparr>heap := (heap w)[cn := f (heap w ! cn)]\<rparr>"

definition cl_cluster_node_reserve :: "world \<Rightarrow> nat \<Rightarrow> world" where
  "cl_cluster_node_reserve w cn = node_upd w cn (\<lambda>n. n\<lparr>rc_count := rc_count n + 1\<rparr>)"

text \<open>
  \<^verbatim>\<open>cl_cluster_node_release\<close>: when the count drops to zero the node is destroyed (its
  address vector and connection queue are emptied, the memory is overwritten with 0xff,
  which destroys the magic, and freed).
\<close>

definition cl_cluster_node_release :: "world \<Rightarrow> nat \<Rightarrow> world" where
  "cl_cluster_node_release w cn =
     (if rc_count (heap w ! cn) - 1 = 0
      then node_upd w cn (\<lambda>n. n\<lparr>rc_count := 0, sockaddr_in_v := [], conn_q := [],
             node_MAGIC_valid := False\<rparr>)
      else node_upd w cn (\<lambda>n. n\<lparr>rc_count := rc_count n - 1\<rparr>))"

subsection \<open>Seed hosts and new addresses\<close>

text \<open>The conversion of an \<^verbatim>\<open>int\<close> to the \<^verbatim>\<open>short\<close> parameter \<^verbatim>\<open>port_in\<close>.\<close>

definition short_of_int :: "int \<Rightarrow> int" where
  "short_of_int i = sint (word_of_int i :: 16 word)"

definition ev2citrusleaf_cluster_add_host_internal ::
    "env \<Rightarrow> world \<Rightarrow> string \<Rightarrow> int \<Rightarrow> int \<times> world" where
  "ev2citrusleaf_cluster_add_host_internal E w host_in port_in =
     (if (host_in, port_in) \<in> set (zip (host_str_v (asc w)) (host_port_v (asc w))) then (0, w)
      else if \<not> malloc_ok E then (- 1, w)
      else (0, w\<lparr>asc := (asc w)\<lparr>host_str_v := host_str_v (asc w) @ [host_in],
                               host_port_v := host_port_v (asc w) @ [port_in]\<rparr>\<rparr>))"

definition ev2citrusleaf_cluster_follow :: "world \<Rightarrow> bool \<Rightarrow> world" where
  "ev2citrusleaf_cluster_follow w flag = w\<lparr>asc := (asc w)\<lparr>follow := flag\<rparr>\<rparr>"

definition cluster_new_sockaddr :: "env \<Rightarrow> world \<Rightarrow> sockaddr_in \<Rightarrow> world" where
  "cluster_new_sockaddr E w new_sin =
     (if shutdown (asc w) then w
      else if \<exists>j \<in> set (node_v (asc w)). new_sin \<in> set (sockaddr_in_v (heap w ! j)) then w
      else if \<not> malloc_ok E then w
      else
        let names = (if n_partitions (asc w) = 0 then ''node\<newline>partitions'' else ''node'')
        in if ev2citrusleaf_info_host E new_sin names \<noteq> 0 then w
           else w\<lparr>info_requests := info_requests w @
                    [\<lparr>req_addr = new_sin, req_names = names,
                      req_callback = Cluster_ping_node_fn new_sin\<rparr>],
                  asc := (asc w)\<lparr>infos_in_progress := infos_in_progress (asc w) + 1\<rparr>\<rparr>)"

fun services_loop :: "env \<Rightarrow> world \<Rightarrow> string list \<Rightarrow> world" where
  "services_loop E w [] = w"
| "services_loop E w (host_str # rest) =
     services_loop E
       (case str_split (CHR '':'') host_str of
          [host_s, port_s] \<Rightarrow>
            (let port = atoi port_s
             in case cl_lookup_immediate E host_s port of
                  Some sin \<Rightarrow>
                    snd (ev2citrusleaf_cluster_add_host_internal E
                           (cluster_new_sockaddr E w sin) host_s (short_of_int port))
                | None \<Rightarrow> w)
        | _ \<Rightarrow> w)
       rest"

definition cluster_services_parse :: "env \<Rightarrow> world \<Rightarrow> string \<Rightarrow> world" where
  "cluster_services_parse E w services = services_loop E w (str_split (CHR '';'') services)"

subsection \<open>Replicas lists\<close>

fun partitions_loop :: "ev2citrusleaf_cluster \<Rightarrow> nat \<Rightarrow> bool \<Rightarrow> string list \<Rightarrow> partition_event list" where
  "partitions_loop a cn wr [] = []"
| "partitions_loop a cn wr (partition_str # rest) =
     (case str_split (CHR '':'') partition_str of
        [namespace_s, partid_s] \<Rightarrow>
          (let partid = atoi partid_s
           in if length namespace_s > 30 then
                Cf_info_bad_namespace namespace_s # partitions_loop a cn wr rest
              else if partid > n_partitions a then
                Cf_warn_out_of_scale partid (n_partitions a) # partitions_loop a cn wr rest
              else
                Cl_partition_table_set cn namespace_s partid wr # partitions_loop a cn wr rest)
      | _ \<Rightarrow> partitions_loop a cn wr rest)"

definition cluster_partitions_process ::
    "ev2citrusleaf_cluster \<Rightarrow> nat \<Rightarrow> string \<Rightarrow> bool \<Rightarrow> partition_event list" where
  "cluster_partitions_process a cn partitions wr =
     partitions_loop a cn wr (str_split (CHR '';'') partitions)"

subsection \<open>The callbacks of the info requests\<close>

definition TAB :: char where
  "TAB = CHR 0x09"

definition NEWLINE :: char where
  "NEWLINE = CHR 0x0A"

definition cl_cluster_node_get_byname :: "world \<Rightarrow> string \<Rightarrow> nat option \<times> world" where
  "cl_cluster_node_get_byname w name_s =
     (case find (\<lambda>i. name_s = name (heap w ! i)) (node_v (asc w)) of
        Some i \<Rightarrow> (Some i, cl_cluster_node_reserve w i)
      | None \<Rightarrow> (None, w))"

text \<open>
  \<^verbatim>\<open>cl_cluster_node_create\<close>: the new node is allocated with one reference ("O"), takes a
  second for its timer ("L") and a third for the cluster's list ("C"), and is returned
  with all three; \<open>None\<close> is the null pointer.
\<close>

definition cl_cluster_node_create :: "env \<Rightarrow> world \<Rightarrow> string \<Rightarrow> nat option \<times> world" where
  "cl_cluster_node_create E w name_s =
     (if \<not> malloc_ok E then (None, w)
      else
        let cn = length (heap w);
            w1 = cl_cluster_node_reserve
                   (w\<lparr>heap := heap w @
                      [\<lparr>node_MAGIC_valid = True, name = name_s, dunned = 0, dun_count = 0,
                        sockaddr_in_v = [], conn_q = [], partition_generation = 0xFFFFFFFF,
                        partition_last_req_ms = 0, timer_event_registered = False,
                        rc_count = 1\<rparr>]\<rparr>) cn
        in if event_add E \<noteq> 0
           then (None, cl_cluster_node_release (cl_cluster_node_release w1 cn) cn)
           else
             let w2 = cl_cluster_node_reserve
                        (node_upd w1 cn (\<lambda>n. n\<lparr>timer_event_registered := True\<rparr>)) cn
             in (Some cn, w2\<lparr>asc := (asc w2)\<lparr>node_v := node_v (asc w2) @ [cn]\<rparr>\<rparr>))"

fun ping_lines :: "env \<Rightarrow> sockaddr_in \<Rightarrow> world \<Rightarrow> string list \<Rightarrow> world" where
  "ping_lines E sa_in w [] = w"
| "ping_lines E sa_in w (line # rest) =
     ping_lines E sa_in
       (case str_split TAB line of
          [name_s, value_s] \<Rightarrow>
            if name_s = ''node'' then
              (let (found, w1) = cl_cluster_node_get_byname w value_s;
                   (cno, w2) = (case found of
                                  None \<Rightarrow> cl_cluster_node_create E w1 value_s
                                | Some c \<Rightarrow> (Some c, w1))
               in case cno of
                    Some cn \<Rightarrow>
                      cl_cluster_node_release
                        (node_upd w2 cn
                           (\<lambda>n. if sa_in \<in> set (sockaddr_in_v n) then n
                                else n\<lparr>sockaddr_in_v := sockaddr_in_v n @ [sa_in]\<rparr>))
                        cn
                  | None \<Rightarrow> w2)
            else if name_s = ''partitions'' then
              w\<lparr>asc := (asc w)\<lparr>n_partitions := atoi value_s\<rparr>\<rparr>
            else w
        | _ \<Rightarrow> w)
       rest"

text \<open>
  \<^verbatim>\<open>cluster_ping_node_fn\<close>, the callback of the probe of a new address \<open>sa_in\<close>
  (the \<^verbatim>\<open>ping_nodes_data\<close>); \<open>values\<close> is the response.
\<close>

definition cluster_ping_node_fn :: "env \<Rightarrow> world \<Rightarrow> int \<Rightarrow> string \<Rightarrow> sockaddr_in \<Rightarrow> world" where
  "cluster_ping_node_fn E w return_value values sa_in =
     (let w1 = w\<lparr>asc := (asc w)\<lparr>infos_in_progress := infos_in_progress (asc w) - 1\<rparr>\<rparr>
      in if return_value \<noteq> 0 \<or> shutdown (asc w1) then w1
         else
           let w2 = ping_lines E sa_in w1 (str_split NEWLINE values)
           in if node_v (asc w2) \<noteq> []
              then w2\<lparr>restarted := restarted w2 @ request_q (asc w2),
                      asc := (asc w2)\<lparr>request_q := []\<rparr>\<rparr>
              else w2)"

definition CL_NODE_PARTITION_MAX_MS :: int where
  "CL_NODE_PARTITION_MAX_MS = 5000"

text \<open>The \<^verbatim>\<open>partition-generation\<close> branch of \<^verbatim>\<open>node_timer_infocb_fn\<close>.\<close>

definition infocb_partition_generation :: "env \<Rightarrow> nat \<Rightarrow> world \<Rightarrow> string \<Rightarrow> world" where
  "infocb_partition_generation E this_cn w value_s =
     (if partition_generation (heap w ! this_cn) \<noteq> atoi value_s mod 2 ^ 32 then
        if partition_last_req_ms (heap w ! this_cn) + CL_NODE_PARTITION_MAX_MS < cf_getms E then
          let w1 = node_upd w this_cn (\<lambda>n. n\<lparr>partition_last_req_ms := cf_getms E\<rparr>)
          in case sockaddr_in_v (heap w1 ! this_cn) of
               [] \<Rightarrow> w1
             | sa_in # _ \<Rightarrow>
                 let w2 = cl_cluster_node_reserve w1 this_cn
                 in if ev2citrusleaf_info_host E sa_in
                         ''replicas-read\<newline>replicas-write\<newline>partition-generation'' \<noteq> 0
                    then cl_cluster_node_release w2 this_cn
                    else w2\<lparr>info_requests := info_requests w2 @
                             [\<lparr>req_addr = sa_in,
                               req_names = ''replicas-read\<newline>replicas-write\<newline>partition-generation'',
                               req_callback = Node_replicas_fn this_cn\<rparr>],
                           asc := (asc w2)\<lparr>infos_in_progress := infos_in_progress (asc w2) + 1\<rparr>\<rparr>
        else w
      else w)"

text \<open>
  The loop of \<^verbatim>\<open>node_timer_infocb_fn\<close> over the lines of the response. A changed node
  name duns the node and leaves the loop (\<^verbatim>\<open>goto Done\<close>).
\<close>

fun infocb_lines :: "env \<Rightarrow> nat \<Rightarrow> world \<Rightarrow> string list \<Rightarrow> world" where
  "infocb_lines E this_cn w [] = w"
| "infocb_lines E this_cn w (line # rest) =
     (case str_split TAB line of
        [name_s, value_s] \<Rightarrow>
          if name_s = ''node'' then
            (if value_s \<noteq> name (heap w ! this_cn)
             then node_upd w this_cn (\<lambda>n. cl_cluster_node_dun n DUN_BAD_NAME)
             else infocb_lines E this_cn w rest)
          else if name_s = ''partition-generation'' then
            infocb_lines E this_cn (infocb_partition_generation E this_cn w value_s) rest
          else if name_s = ''services'' then
            infocb_lines E this_cn (cluster_services_parse E w value_s) rest
          else infocb_lines E this_cn w rest
      | _ \<Rightarrow> infocb_lines E this_cn w rest)"

definition node_timer_infocb_fn :: "env \<Rightarrow> world \<Rightarrow> int \<Rightarrow> string \<Rightarrow> nat \<Rightarrow> world" where
  "node_timer_infocb_fn E w return_value response this_cn =
     (if \<not> node_MAGIC_valid (heap w ! this_cn) then w
      else
        let w1 = w\<lparr>asc := (asc w)\<lparr>infos_in_progress := infos_in_progress (asc w) - 1\<rparr>\<rparr>
        in if dunned (heap w1 ! this_cn) \<noteq> 0 \<or> shutdown (asc w1)
           then cl_cluster_node_release w1 this_cn
           else if return_value \<noteq> 0
           then cl_cluster_node_release
                  (node_upd w1 this_cn (\<lambda>n. cl_cluster_node_dun n DUN_INFO_FAIL)) this_cn
           else cl_cluster_node_release
                  (infocb_lines E this_cn (node_upd w1 this_cn cl_cluster_node_ok)
                     (str_split NEWLINE response))
                  this_cn)"

subsection \<open>The active node count and the destroy delay\<close>

text \<open>The loop of \<^verbatim>\<open>ev2citrusleaf_cluster_get_active_node_count\<close>, which computes \<open>count\<close>.\<close>

fun active_node_loop :: "cl_cluster_node list \<Rightarrow> nat list \<Rightarrow> int \<Rightarrow> int" where
  "active_node_loop h [] count = count"
| "active_node_loop h (i # rest) count =
     (let node = h ! i
      in if \<not> node_MAGIC_valid node then active_node_loop h rest count
         else if name node = [] then active_node_loop h rest count
         else if dunned node \<noteq> 0 then active_node_loop h rest count
         else if sockaddr_in_v node = [] then active_node_loop h rest count
         else active_node_loop h rest (count + 1))"

text \<open>The argument is \<open>None\<close> for a null cluster pointer.\<close>

definition ev2citrusleaf_cluster_get_active_node_count :: "world option \<Rightarrow> int" where
  "ev2citrusleaf_cluster_get_active_node_count wo =
     (case wo of
        None \<Rightarrow> - 1
      | Some w \<Rightarrow>
          if \<not> MAGIC_valid (asc w) then 0
          else
            let count = active_node_loop (heap w) (node_v (asc w)) 0;
                rv = int (length (node_v (asc w)))
            in rv)"

text \<open>
  \<^verbatim>\<open>ev2citrusleaf_cluster_destroy\<close> up to its sleep: the argument of the \<^verbatim>\<open>usleep\<close> call
  it makes before \<^verbatim>\<open>event_base_loopbreak\<close>, in microseconds (\<^verbatim>\<open>__useconds_t\<close> is an
  unsigned 32-bit integer), or \<open>None\<close> when it makes none.
\<close>

definition ev2citrusleaf_cluster_destroy_usleep :: "ev2citrusleaf_cluster \<Rightarrow> int \<Rightarrow> int option" where
  "ev2citrusleaf_cluster_destroy_usleep a delay_ms =
     (if \<not> MAGIC_valid a then None
      else
        let delay_ms' = (if delay_ms < 0 \<or> delay_ms > 60 * 1000 then 100 else delay_ms)
        in if base_set a then Some ((delay_ms' * 1000) mod 2 ^ 32) else None)"

section \<open>The scan executor (src/main/aerospike/aerospike\_scan.c)\<close>

subsection \<open>Status codes, messages, callbacks\<close>

text \<open>
  \<^verbatim>\<open>as_status\<close> is an integer. The header that gives the enumerators their values is not
  among the sources, so the values the scan code names are parameters of the model.
  \<open>status_codes_ok\<close> states what is assumed of them: \<^verbatim>\<open>AEROSPIKE_OK\<close> is 0 (the code
  tests \<^verbatim>\<open>if (status)\<close> for failure), the codes the client makes up itself
  (\<^verbatim>\<open>AEROSPIKE_NO_MORE_RECORDS\<close>, \<^verbatim>\<open>AEROSPIKE_ERR_CLIENT_ABORT\<close>, \<^verbatim>\<open>AEROSPIKE_ERR_PARAM\<close>,
  \<^verbatim>\<open>AEROSPIKE_ERR_CLIENT\<close>) are negative and differ from each other, and the codes a server
  sends in the one-byte \<^verbatim>\<open>result_code\<close> (\<^verbatim>\<open>AEROSPIKE_ERR_SERVER\<close>,
  \<^verbatim>\<open>AEROSPIKE_ERR_RECORD_NOT_FOUND\<close>, \<^verbatim>\<open>AEROSPIKE_ERR_SCAN_ABORTED\<close>) lie in 1..255.
\<close>

record as_status_codes =
  AEROSPIKE_OK :: int
  AEROSPIKE_ERR_RECORD_NOT_FOUND :: int
  AEROSPIKE_NO_MORE_RECORDS :: int
  AEROSPIKE_ERR_CLIENT_ABORT :: int
  AEROSPIKE_ERR_SCAN_ABORTED :: int
  AEROSPIKE_ERR_PARAM :: int
  AEROSPIKE_ERR_SERVER :: int
  AEROSPIKE_ERR_CLIENT :: int

definition status_codes_ok :: "as_status_codes \<Rightarrow> bool" where
  "status_codes_ok K =
     (AEROSPIKE_OK K = 0 \<and>
      AEROSPIKE_NO_MORE_RECORDS K < 0 \<and> AEROSPIKE_ERR_CLIENT_ABORT K < 0 \<and>
      AEROSPIKE_ERR_PARAM K < 0 \<and> AEROSPIKE_ERR_CLIENT K < 0 \<and>
      distinct [AEROSPIKE_NO_MORE_RECORDS K, AEROSPIKE_ERR_CLIENT_ABORT K,
                AEROSPIKE_ERR_PARAM K, AEROSPIKE_ERR_CLIENT K] \<and>
      0 < AEROSPIKE_ERR_RECORD_NOT_FOUND K \<and> AEROSPIKE_ERR_RECORD_NOT_FOUND K \<le> 255 \<and>
      0 < AEROSPIKE_ERR_SERVER K \<and> AEROSPIKE_ERR_SERVER K \<le> 255 \<and>
      0 < AEROSPIKE_ERR_SCAN_ABORTED K \<and> AEROSPIKE_ERR_SCAN_ABORTED K \<le> 255)"

text \<open>
  One \<^verbatim>\<open>as_msg\<close> of a response group: its \<^verbatim>\<open>result_code\<close> and \<^verbatim>\<open>info3\<close> bytes, and
  \<open>msg_record\<close>, the \<^verbatim>\<open>as_record\<close> that \<^verbatim>\<open>as_scan_parse_record\<close> decodes from its header
  (generation, ttl) and from the key fields and bins after it.
\<close>

record 'r as_msg =
  result_code :: "8 word"
  info3 :: "8 word"
  msg_record :: 'r

definition AS_MSG_INFO3_LAST :: "8 word" where
  "AS_MSG_INFO3_LAST = 0x01"

text \<open>
  What a scan works on: the user's \<open>udata\<close>, the shared \<open>error_mutex\<close>, the code of
  the caller's \<^verbatim>\<open>as_error\<close> (\<open>task_err\<close>), and \<open>calls\<close>, the record of the callback's
  invocations so far, oldest first: the argument (\<open>None\<close> for \<^verbatim>\<open>NULL\<close>) and what the
  callback returned. An \<^verbatim>\<open>as_error\<close> is modelled by its code.
\<close>

record ('r, 'u) scan_state =
  udata :: 'u
  calls :: "('r option \<times> bool) list"
  error_mutex :: "32 word"
  task_err :: int

type_synonym ('r, 'u) scan_callback = "'r option \<Rightarrow> 'u \<Rightarrow> bool \<times> 'u"

definition invoke_callback ::
    "('r, 'u) scan_callback \<Rightarrow> 'r option \<Rightarrow> ('r, 'u) scan_state \<Rightarrow> bool \<times> ('r, 'u) scan_state" where
  "invoke_callback f v st =
     (let (rv, u) = f v (udata st)
      in (rv, st\<lparr>udata := u, calls := calls st @ [(v, rv)]\<rparr>))"

subsection \<open>Parsing the response of one node\<close>

definition as_scan_parse_record ::
    "as_status_codes \<Rightarrow> ('r, 'u) scan_callback option \<Rightarrow> 'r as_msg \<Rightarrow> ('r, 'u) scan_state
     \<Rightarrow> int \<times> ('r, 'u) scan_state" where
  "as_scan_parse_record K callback msg st =
     (case callback of
        None \<Rightarrow> (AEROSPIKE_OK K, st)
      | Some f \<Rightarrow>
          let (rv, st1) = invoke_callback f (Some (msg_record msg)) st
          in (if rv then AEROSPIKE_OK K else AEROSPIKE_ERR_CLIENT_ABORT K, st1))"

text \<open>
  \<^verbatim>\<open>as_scan_parse_records\<close> over the messages of one group; the result is the status, the
  code left in \<^verbatim>\<open>err\<close> and the state. \<^verbatim>\<open>as_error_set_message\<close> stores the code it is
  given and returns it.
\<close>

fun as_scan_parse_records ::
    "as_status_codes \<Rightarrow> ('r, 'u) scan_callback option \<Rightarrow> 'r as_msg list \<Rightarrow> int
     \<Rightarrow> ('r, 'u) scan_state \<Rightarrow> int \<times> int \<times> ('r, 'u) scan_state" where
  "as_scan_parse_records K callback [] err st = (AEROSPIKE_OK K, err, st)"
| "as_scan_parse_records K callback (msg # rest) err st =
     (if result_code msg \<noteq> 0 then
        if uint (result_code msg) = AEROSPIKE_ERR_RECORD_NOT_FOUND K
        then (AEROSPIKE_NO_MORE_RECORDS K, err, st)
        else (uint (result_code msg), uint (result_code msg), st)
      else if info3 msg AND AS_MSG_INFO3_LAST \<noteq> 0 then (AEROSPIKE_NO_MORE_RECORDS K, err, st)
      else
        case as_scan_parse_record K callback msg st of
          (status, st1) \<Rightarrow>
            if status \<noteq> AEROSPIKE_OK K then (status, err, st1)
            else if error_mutex st1 \<noteq> 0
            then (AEROSPIKE_ERR_SCAN_ABORTED K, AEROSPIKE_ERR_SCAN_ABORTED K, st1)
            else as_scan_parse_records K callback rest err st1)"

text \<open>
  One pass of the loop of \<^verbatim>\<open>as_scan_parse\<close>: the status of the read of the header, the
  size the header gives, the status of the read of the payload, and the messages of the
  payload (at least one when the size is not 0). A failed read leaves its status in
  \<^verbatim>\<open>err\<close>.
\<close>

record 'r scan_group =
  header_status :: int
  proto_sz :: nat
  payload_status :: int
  msgs :: "'r as_msg list"

text \<open>\<open>Inl\<close> is a \<^verbatim>\<open>break\<close> with the status to return, \<open>Inr\<close> the next pass.\<close>

definition as_scan_parse_group ::
    "as_status_codes \<Rightarrow> ('r, 'u) scan_callback option \<Rightarrow> 'r scan_group \<Rightarrow> int
     \<Rightarrow> ('r, 'u) scan_state
     \<Rightarrow> (int \<times> int \<times> ('r, 'u) scan_state) + (int \<times> ('r, 'u) scan_state)" where
  "as_scan_parse_group K callback g err st =
     (if header_status g \<noteq> 0 then Inl (header_status g, header_status g, st)
      else if proto_sz g > 0 then
        if payload_status g \<noteq> 0 then Inl (payload_status g, payload_status g, st)
        else
          case as_scan_parse_records K callback (msgs g) err st of
            (status, err1, st1) \<Rightarrow>
              if status \<noteq> AEROSPIKE_OK K
              then Inl (if status = AEROSPIKE_NO_MORE_RECORDS K then AEROSPIKE_OK K else status,
                        err1, st1)
              else Inr (err1, st1)
      else Inr (err, st))"

text \<open>
  \<^verbatim>\<open>as_scan_parse\<close> on the groups the socket delivers; when they are used up, the next read
  of a header fails with \<open>final_status\<close> (the deadline passes or the connection is gone).
\<close>

fun as_scan_parse ::
    "as_status_codes \<Rightarrow> ('r, 'u) scan_callback option \<Rightarrow> 'r scan_group list \<Rightarrow> int \<Rightarrow> int
     \<Rightarrow> ('r, 'u) scan_state \<Rightarrow> int \<times> int \<times> ('r, 'u) scan_state" where
  "as_scan_parse K callback [] final_status err st = (final_status, final_status, st)"
| "as_scan_parse K callback (g # rest) final_status err st =
     (case as_scan_parse_group K callback g err st of
        Inl r \<Rightarrow> r
      | Inr (err1, st1) \<Rightarrow> as_scan_parse K callback rest final_status err1 st1)"

text \<open>The groups that the loop passes without leaving, and the state after them.\<close>

fun scan_groups_pass ::
    "as_status_codes \<Rightarrow> ('r, 'u) scan_callback option \<Rightarrow> 'r scan_group list \<Rightarrow> int
     \<Rightarrow> ('r, 'u) scan_state \<Rightarrow> (int \<times> ('r, 'u) scan_state) option" where
  "scan_groups_pass K callback [] err st = Some (err, st)"
| "scan_groups_pass K callback (g # rest) err st =
     (case as_scan_parse_group K callback g err st of
        Inl r \<Rightarrow> None
      | Inr (err1, st1) \<Rightarrow> scan_groups_pass K callback rest err1 st1)"

subsection \<open>Running the scan on the nodes\<close>

text \<open>
  A node of the cluster as a scan sees it: its name, and what its connection does:
  \<open>connect_status\<close> is the status of getting a connection and writing the command (not
  0 when that fails), \<open>groups\<close> are the groups the node then sends, and \<open>final_status\<close>
  is the status of the read that finds no further group.
\<close>

record 'r as_node =
  as_node_name :: string
  connect_status :: int
  groups :: "'r scan_group list"
  final_status :: int

text \<open>
  Modelled from the spec: \<^verbatim>\<open>as_command_execute\<close> is not among the sources. The spec has the
  worker of a node open or reuse a connection, write the command, then loop reading groups
  (which is \<^verbatim>\<open>as_scan_parse\<close>, passed as \<^verbatim>\<open>parse_results_fn\<close>); the scan has no retries
  (\<^verbatim>\<open>AS_POLICY_RETRY_NONE\<close>). When the connection or the write fails, its status is returned
  and nothing is read.
\<close>

definition as_command_execute ::
    "as_status_codes \<Rightarrow> ('r, 'u) scan_callback option \<Rightarrow> 'r as_node \<Rightarrow> int
     \<Rightarrow> ('r, 'u) scan_state \<Rightarrow> int \<times> int \<times> ('r, 'u) scan_state" where
  "as_command_execute K callback node err st =
     (if connect_status node \<noteq> 0 then (connect_status node, connect_status node, st)
      else as_scan_parse K callback (groups node) (final_status node) err st)"

text \<open>
  \<^verbatim>\<open>as_scan_command_execute\<close>: \<^verbatim>\<open>ck_pr_fas_32\<close> stores 1 in the mutex and returns what it
  held.
\<close>

definition as_scan_command_execute ::
    "as_status_codes \<Rightarrow> ('r, 'u) scan_callback option \<Rightarrow> 'r as_node \<Rightarrow> ('r, 'u) scan_state
     \<Rightarrow> int \<times> ('r, 'u) scan_state" where
  "as_scan_command_execute K callback node st =
     (case as_command_execute K callback node (AEROSPIKE_OK K) st of
        (status, err, st1) \<Rightarrow>
          if status \<noteq> 0 then
            (let st2 = st1\<lparr>error_mutex := 1\<rparr>
             in if error_mutex st1 = 0 \<and> status \<noteq> AEROSPIKE_ERR_CLIENT_ABORT K
                then (status, st2\<lparr>task_err := err\<rparr>)
                else (status, st2))
          else (status, st1))"

text \<open>The serial loop of \<^verbatim>\<open>as_scan_generic\<close>: it goes on while the status is OK.\<close>

fun scan_serial ::
    "as_status_codes \<Rightarrow> ('r, 'u) scan_callback option \<Rightarrow> 'r as_node list \<Rightarrow> int
     \<Rightarrow> ('r, 'u) scan_state \<Rightarrow> int \<times> ('r, 'u) scan_state" where
  "scan_serial K callback [] status st = (status, st)"
| "scan_serial K callback (node # rest) status st =
     (if status = AEROSPIKE_OK K
      then (case as_scan_command_execute K callback node st of
              (status1, st1) \<Rightarrow> scan_serial K callback rest status1 st1)
      else (status, st))"

text \<open>
  The concurrent branch runs one worker per node on the threads of the pool while the main
  thread goes on queueing. What a thread does between two accesses to what the threads
  share (the mutex, the caller's error, the user data and the completion queue) is one
  step, and a run of the branch is an interleaving of the steps of its threads.

  A worker is at one of these points of \<^verbatim>\<open>as_scan_worker\<close>:

  \<^item> \<open>W_parse ms gs fin err\<close>: in \<^verbatim>\<open>as_scan_parse_records\<close> before the messages \<open>ms\<close> of
    the group at hand (in \<^verbatim>\<open>as_scan_parse\<close> between two groups when \<open>ms\<close> is empty), with
    the groups \<open>gs\<close> still to come, the status \<open>fin\<close> of the read after the last group,
    and the code \<open>err\<close> of the worker's own \<^verbatim>\<open>as_error\<close>;

  \<^item> \<open>W_load ms gs fin err\<close>: the callback has returned true for a record, before
    \<^verbatim>\<open>ck_pr_load_32\<close>;

  \<^item> \<open>W_exit status err\<close>: \<^verbatim>\<open>as_command_execute\<close> has returned \<open>status\<close>, before
    \<^verbatim>\<open>ck_pr_fas_32\<close>;

  \<^item> \<open>W_push status\<close>: before \<^verbatim>\<open>cf_queue_push\<close>;

  \<^item> \<open>W_done\<close>: the result is in the completion queue.
\<close>

datatype 'r worker =
    W_parse "'r as_msg list" "'r scan_group list" int int
  | W_load "'r as_msg list" "'r scan_group list" int int
  | W_exit int int
  | W_push int
  | W_done

text \<open>
  The worker of a node starts in \<^verbatim>\<open>as_command_execute\<close> (as modelled above): a connection
  or a write that fails returns at once, otherwise \<^verbatim>\<open>as_scan_parse\<close> reads the groups.
\<close>

definition worker_init :: "as_status_codes \<Rightarrow> 'r as_node \<Rightarrow> 'r worker" where
  "worker_init K node =
     (if connect_status node \<noteq> 0 then W_exit (connect_status node) (connect_status node)
      else W_parse [] (groups node) (final_status node) (AEROSPIKE_OK K))"

text \<open>
  Where \<^verbatim>\<open>as_scan_parse_records\<close> returns \<open>status\<close> with the code \<open>err\<close>:
  \<^verbatim>\<open>as_scan_parse\<close> leaves its loop with the status (\<^verbatim>\<open>AEROSPIKE_NO_MORE_RECORDS\<close> as OK), or
  goes on to the next group when the status is OK.
\<close>

definition records_return ::
    "as_status_codes \<Rightarrow> int \<Rightarrow> int \<Rightarrow> 'r scan_group list \<Rightarrow> int \<Rightarrow> 'r worker" where
  "records_return K status err gs fin =
     (if status \<noteq> AEROSPIKE_OK K
      then W_exit (if status = AEROSPIKE_NO_MORE_RECORDS K then AEROSPIKE_OK K else status) err
      else W_parse [] gs fin err)"

text \<open>
  One step of a worker: the point it goes to, the shared state, and the result it pushes,
  if it pushes one. The steps follow \<^verbatim>\<open>as_scan_parse\<close>, \<^verbatim>\<open>as_scan_parse_records\<close>,
  \<^verbatim>\<open>as_scan_command_execute\<close> and \<^verbatim>\<open>as_scan_worker\<close> line by line. A call of the callback
  is one step (the callback of a concurrent scan is called from several threads and has
  to be thread-safe). \<^verbatim>\<open>ck_pr_fas_32\<close> and the \<^verbatim>\<open>as_error_copy\<close> after it are one step: only
  the one thread that got 0 from \<^verbatim>\<open>ck_pr_fas_32\<close> ever writes the caller's error.
\<close>

fun worker_step ::
    "as_status_codes \<Rightarrow> ('r, 'u) scan_callback option \<Rightarrow> 'r worker \<Rightarrow> ('r, 'u) scan_state
     \<Rightarrow> 'r worker \<times> ('r, 'u) scan_state \<times> int option" where
  "worker_step K callback (W_parse [] [] fin err) st = (W_exit fin fin, st, None)"
| "worker_step K callback (W_parse [] (g # gs) fin err) st =
     (if header_status g \<noteq> 0 then (W_exit (header_status g) (header_status g), st, None)
      else if proto_sz g > 0 then
        if payload_status g \<noteq> 0
        then (W_exit (payload_status g) (payload_status g), st, None)
        else (W_parse (msgs g) gs fin err, st, None)
      else (W_parse [] gs fin err, st, None))"
| "worker_step K callback (W_parse (msg # rest) gs fin err) st =
     (if result_code msg \<noteq> 0 then
        if uint (result_code msg) = AEROSPIKE_ERR_RECORD_NOT_FOUND K
        then (records_return K (AEROSPIKE_NO_MORE_RECORDS K) err gs fin, st, None)
        else (records_return K (uint (result_code msg)) (uint (result_code msg)) gs fin, st, None)
      else if info3 msg AND AS_MSG_INFO3_LAST \<noteq> 0
      then (records_return K (AEROSPIKE_NO_MORE_RECORDS K) err gs fin, st, None)
      else
        case as_scan_parse_record K callback msg st of
          (status, st1) \<Rightarrow>
            if status \<noteq> AEROSPIKE_OK K then (records_return K status err gs fin, st1, None)
            else (W_load rest gs fin err, st1, None))"
| "worker_step K callback (W_load rest gs fin err) st =
     (if error_mutex st \<noteq> 0
      then (records_return K (AEROSPIKE_ERR_SCAN_ABORTED K) (AEROSPIKE_ERR_SCAN_ABORTED K) gs fin,
            st, None)
      else (W_parse rest gs fin err, st, None))"
| "worker_step K callback (W_exit status err) st =
     (if status \<noteq> 0 then
        (W_push status,
         st\<lparr>error_mutex := 1,
            task_err := (if error_mutex st = 0 \<and> status \<noteq> AEROSPIKE_ERR_CLIENT_ABORT K
                         then err else task_err st)\<rparr>,
         None)
      else (W_push status, st, None))"
| "worker_step K callback (W_push status) st = (W_done, st, Some status)"
| "worker_step K callback W_done st = (W_done, st, None)"

text \<open>
  The state of the concurrent branch: the nodes that the main thread has still to queue,
  the workers queued so far (worker \<open>i\<close> is the one of node \<open>i\<close>), the shared state, the
  completion queue (oldest result first) and the \<^verbatim>\<open>status\<close> of the main thread.
\<close>

datatype pool_thread = Main | Worker nat

record ('r, 'u) scan_pool =
  to_queue :: "'r as_node list"
  workers :: "'r worker list"
  shared :: "('r, 'u) scan_state"
  complete_q :: "int list"
  main_status :: int

text \<open>
  One step of a thread. A step of the main thread is one pass of the loop that queues the
  tasks; \<open>queue_rc i\<close> is what \<^verbatim>\<open>as_thread_pool_queue_task\<close> returns for the task of node
  \<open>i\<close>. When it is not 0 the loop is left, no further task is queued, and the main thread
  will wait for the workers queued before only (\<^verbatim>\<open>n_wait_nodes = i\<close>). \<^verbatim>\<open>as_error_update\<close>
  returns the code it stores.
\<close>

fun pool_step ::
    "as_status_codes \<Rightarrow> ('r, 'u) scan_callback option \<Rightarrow> (nat \<Rightarrow> int) \<Rightarrow> pool_thread
     \<Rightarrow> ('r, 'u) scan_pool \<Rightarrow> ('r, 'u) scan_pool" where
  "pool_step K callback queue_rc Main P =
     (case to_queue P of
        [] \<Rightarrow> P
      | node # rest \<Rightarrow>
          if queue_rc (length (workers P)) \<noteq> 0 then
            P\<lparr>to_queue := [],
              main_status := (if error_mutex (shared P) = 0 then AEROSPIKE_ERR_CLIENT K
                              else main_status P),
              shared := (shared P)\<lparr>error_mutex := 1,
                          task_err := (if error_mutex (shared P) = 0 then AEROSPIKE_ERR_CLIENT K
                                       else task_err (shared P))\<rparr>\<rparr>
          else P\<lparr>to_queue := rest, workers := workers P @ [worker_init K node]\<rparr>)"
| "pool_step K callback queue_rc (Worker i) P =
     (if i < length (workers P) then
        case worker_step K callback (workers P ! i) (shared P) of
          (w, st, pushed) \<Rightarrow>
            P\<lparr>workers := (workers P)[i := w], shared := st,
              complete_q := complete_q P @ (case pushed of None \<Rightarrow> [] | Some r \<Rightarrow> [r])\<rparr>
      else P)"

text \<open>
  The threads that can take a step: the main thread while it has a node to queue, and
  every worker that has not pushed its result. A schedule picks one of them for each step:
  the number \<open>c\<close> at its head picks thread \<open>c mod n\<close> of the \<open>n\<close> that can take a step, and
  when the schedule is used up the first of them runs. Every interleaving of the threads
  is the run of a schedule.
\<close>

fun enabled_workers :: "nat \<Rightarrow> 'r worker list \<Rightarrow> pool_thread list" where
  "enabled_workers i [] = []"
| "enabled_workers i (w # ws) =
     (case w of W_done \<Rightarrow> [] | _ \<Rightarrow> [Worker i]) @ enabled_workers (Suc i) ws"

definition enabled :: "('r, 'u) scan_pool \<Rightarrow> pool_thread list" where
  "enabled P = (if to_queue P = [] then [] else [Main]) @ enabled_workers 0 (workers P)"

definition pick :: "pool_thread list \<Rightarrow> nat list \<Rightarrow> pool_thread" where
  "pick ts schedule = ts ! (case schedule of [] \<Rightarrow> 0 | c # _ \<Rightarrow> c mod length ts)"

text \<open>
  Every step of a thread that can take one lowers \<open>pool_measure\<close>: the steps a worker has
  left at most, summed over the workers queued and the nodes to be queued.
\<close>

fun worker_measure :: "'r worker \<Rightarrow> nat" where
  "worker_measure (W_parse ms gs fin err) =
     2 * length ms + sum_list (map (\<lambda>g. 2 * length (msgs g) + 1) gs) + 3"
| "worker_measure (W_load ms gs fin err) =
     2 * length ms + sum_list (map (\<lambda>g. 2 * length (msgs g) + 1) gs) + 4"
| "worker_measure (W_exit status err) = 2"
| "worker_measure (W_push status) = 1"
| "worker_measure W_done = 0"

definition pool_measure :: "as_status_codes \<Rightarrow> ('r, 'u) scan_pool \<Rightarrow> nat" where
  "pool_measure K P =
     sum_list (map worker_measure (workers P)) +
     sum_list (map (\<lambda>n. worker_measure (worker_init K n) + 1) (to_queue P))"

text \<open>
  The run of the concurrent branch under a schedule, until no thread can take a step: the
  queueing loop is over and every worker that was queued has pushed its result.
\<close>

function pool_run ::
    "as_status_codes \<Rightarrow> ('r, 'u) scan_callback option \<Rightarrow> (nat \<Rightarrow> int) \<Rightarrow> nat list
     \<Rightarrow> ('r, 'u) scan_pool \<Rightarrow> ('r, 'u) scan_pool" where
  "pool_run K callback queue_rc schedule P =
     (if enabled P = [] then P
      else pool_run K callback queue_rc (tl schedule)
             (pool_step K callback queue_rc (pick (enabled P) schedule) P))"
  by pat_completeness auto
termination
proof (relation "measure (\<lambda>(K, callback, queue_rc, schedule, P). pool_measure K P)")
  show "wf (measure (\<lambda>(K, callback :: ('r, 'u) scan_callback option, queue_rc :: nat \<Rightarrow> int,
                        schedule :: nat list, P :: ('r, 'u) scan_pool). pool_measure K P))"
    by simp
next
  fix K :: as_status_codes and callback :: "('r, 'u) scan_callback option"
    and queue_rc :: "nat \<Rightarrow> int" and schedule :: "nat list" and P :: "('r, 'u) scan_pool"
  assume en: "enabled P \<noteq> []"
  let ?t = "pick (enabled P) schedule"
  have ret: "worker_measure (records_return K s e gs fin) < n"
    if "sum_list (map (\<lambda>g. 2 * length (msgs g) + 1) gs) + 3 < n"
    for s e fin n and gs :: "'r scan_group list"
    using that by (simp add: records_return_def)
  have step: "worker_measure (fst (worker_step K callback w st)) < worker_measure w"
    if "w \<noteq> W_done" for w :: "'r worker" and st :: "('r, 'u) scan_state"
  proof (cases w)
    case (W_parse ms gs fin err)
    show ?thesis
    proof (cases ms)
      case Nil
      then show ?thesis using W_parse by (cases gs) auto
    next
      case (Cons m rest)
      then show ?thesis using W_parse by (auto split: prod.splits intro!: ret)
    qed
  next
    case (W_load ms gs fin err)
    then show ?thesis by (auto intro!: ret)
  qed (use that in auto)
  have upd: "sum_list (map worker_measure (ws[i := w])) < sum_list (map worker_measure ws)"
    if "i < length ws" "worker_measure w < worker_measure (ws ! i)"
    for i w and ws :: "'r worker list"
    using that
  proof (induction ws arbitrary: i)
    case Nil
    then show ?case by simp
  next
    case (Cons x xs)
    then show ?case by (cases i) auto
  qed
  have mem: "\<exists>j. t = Worker (i + j) \<and> j < length ws \<and> ws ! j \<noteq> W_done"
    if "t \<in> set (enabled_workers i ws)" for t i and ws :: "'r worker list"
    using that
  proof (induction ws arbitrary: i)
    case Nil
    then show ?case by simp
  next
    case (Cons w ws)
    show ?case
    proof (cases "t \<in> set (enabled_workers (Suc i) ws)")
      case True
      from Cons.IH [OF this] obtain j where
        "t = Worker (Suc i + j)" "j < length ws" "ws ! j \<noteq> W_done"
        by blast
      then show ?thesis by (intro exI [of _ "Suc j"]) simp
    next
      case False
      then have "t = Worker i \<and> w \<noteq> W_done"
        using Cons.prems by (auto split: worker.splits)
      then show ?thesis by (intro exI [of _ 0]) simp
    qed
  qed
  have pk: "?t \<in> set (enabled P)"
    using en by (auto simp: pick_def split: list.splits)
  have "pool_measure K (pool_step K callback queue_rc ?t P) < pool_measure K P"
  proof (cases ?t)
    case Main
    then have "to_queue P \<noteq> []"
      using pk mem [of ?t 0 "workers P"] by (auto simp: enabled_def split: if_splits)
    then show ?thesis
      using Main by (cases "to_queue P") (auto simp: pool_measure_def worker_init_def)
  next
    case (Worker i)
    then have "?t \<in> set (enabled_workers 0 (workers P))"
      using pk by (auto simp: enabled_def split: if_splits)
    from mem [OF this] have i: "i < length (workers P)" "workers P ! i \<noteq> W_done"
      using Worker by auto
    obtain w st p where s: "worker_step K callback (workers P ! i) (shared P) = (w, st, p)"
      by (cases "worker_step K callback (workers P ! i) (shared P)")
    have "worker_measure w < worker_measure (workers P ! i)"
      using step [OF i(2), of "shared P"] s by simp
    then show ?thesis
      using Worker i s upd [of i "workers P" w] by (simp add: pool_measure_def)
  qed
  then show "((K, callback, queue_rc, tl schedule, pool_step K callback queue_rc ?t P),
              (K, callback, queue_rc, schedule, P))
             \<in> measure (\<lambda>(K, callback, queue_rc, schedule, P). pool_measure K P)"
    by simp
qed

declare pool_run.simps [simp del]

definition pool_init ::
    "as_status_codes \<Rightarrow> 'r as_node list \<Rightarrow> ('r, 'u) scan_state \<Rightarrow> ('r, 'u) scan_pool" where
  "pool_init K nodes st =
     \<lparr>to_queue = nodes, workers = [], shared = st, complete_q = [],
      main_status = AEROSPIKE_OK K\<rparr>"

text \<open>
  The loop that waits for the tasks: it pops as many results as workers were queued, and
  keeps the first status that is not OK.
\<close>

fun scan_wait :: "as_status_codes \<Rightarrow> int \<Rightarrow> int list \<Rightarrow> int" where
  "scan_wait K status [] = status"
| "scan_wait K status (result # rest) =
     scan_wait K (if result \<noteq> AEROSPIKE_OK K \<and> status = AEROSPIKE_OK K then result else status)
       rest"

text \<open>
  The status and the state of \<^verbatim>\<open>as_scan_generic\<close> when all nodes are done, before the
  last two steps (for a cluster with at least one node). In the concurrent branch the
  wait loop touches nothing but the completion queue, which it reads in the order of the
  pushes, and it returns when the last worker has pushed: it is run on the queue the
  workers leave.
\<close>

definition scan_nodes ::
    "as_status_codes \<Rightarrow> bool \<Rightarrow> ('r, 'u) scan_callback option \<Rightarrow> (nat \<Rightarrow> int) \<Rightarrow> nat list
     \<Rightarrow> 'r as_node list \<Rightarrow> ('r, 'u) scan_state \<Rightarrow> int \<times> ('r, 'u) scan_state" where
  "scan_nodes K concurrent callback queue_rc schedule nodes st =
     (if concurrent then
        let P = pool_run K callback queue_rc schedule (pool_init K nodes st)
        in (scan_wait K (main_status P) (take (length (workers P)) (complete_q P)), shared P)
      else scan_serial K callback nodes (AEROSPIKE_OK K) st)"

text \<open>
  The end of \<^verbatim>\<open>as_scan_generic\<close> and of \<^verbatim>\<open>aerospike_scan_node\<close>: the callback that
  signals completion.
\<close>

definition scan_completion ::
    "as_status_codes \<Rightarrow> ('r, 'u) scan_callback option \<Rightarrow> int \<Rightarrow> ('r, 'u) scan_state
     \<Rightarrow> int \<times> ('r, 'u) scan_state" where
  "scan_completion K callback status st =
     (case callback of
        Some f \<Rightarrow> if status = AEROSPIKE_OK K then (status, snd (invoke_callback f None st))
                  else (status, st)
      | None \<Rightarrow> (status, st))"

text \<open>
  \<^verbatim>\<open>as_scan_generic\<close>. The policy, the task id and the bytes of the command do not bear on
  the status or on the callbacks and are left out. \<^verbatim>\<open>as_error_set_message\<close> returns the
  code it stores. The schedule of the threads is an argument; a serial scan does not
  look at it.
\<close>

definition as_scan_generic ::
    "as_status_codes \<Rightarrow> 'r as_node list \<Rightarrow> bool \<Rightarrow> (nat \<Rightarrow> int) \<Rightarrow> nat list
     \<Rightarrow> ('r, 'u) scan_callback option \<Rightarrow> ('r, 'u) scan_state \<Rightarrow> int \<times> ('r, 'u) scan_state" where
  "as_scan_generic K nodes concurrent queue_rc schedule callback st =
     (let st0 = st\<lparr>task_err := AEROSPIKE_OK K\<rparr>
      in if nodes = [] then (AEROSPIKE_ERR_SERVER K, st0\<lparr>task_err := AEROSPIKE_ERR_SERVER K\<rparr>)
         else
           case scan_nodes K concurrent callback queue_rc schedule nodes
                  (st0\<lparr>error_mutex := 0\<rparr>) of
             (status, st1) \<Rightarrow>
               scan_completion K callback
                 (if status = AEROSPIKE_ERR_CLIENT_ABORT K then AEROSPIKE_OK K else status) st1)"

definition aerospike_scan_foreach ::
    "as_status_codes \<Rightarrow> 'r as_node list \<Rightarrow> bool \<Rightarrow> (nat \<Rightarrow> int) \<Rightarrow> nat list
     \<Rightarrow> ('r, 'u) scan_callback \<Rightarrow> ('r, 'u) scan_state \<Rightarrow> int \<times> ('r, 'u) scan_state" where
  "aerospike_scan_foreach K nodes concurrent queue_rc schedule callback st =
     as_scan_generic K nodes concurrent queue_rc schedule (Some callback) st"

definition aerospike_scan_background ::
    "as_status_codes \<Rightarrow> 'r as_node list \<Rightarrow> bool \<Rightarrow> (nat \<Rightarrow> int) \<Rightarrow> nat list
     \<Rightarrow> ('r, 'u) scan_state \<Rightarrow> int \<times> ('r, 'u) scan_state" where
  "aerospike_scan_background K nodes concurrent queue_rc schedule st =
     as_scan_generic K nodes concurrent queue_rc schedule None st"

text \<open>
  \<^verbatim>\<open>as_node_get_by_name\<close> is not among the sources. As \<^verbatim>\<open>aerospike_scan_node\<close> uses it
  (a null result is reported as "Invalid node name"), it returns the node of the cluster
  that has the given name, or \<^verbatim>\<open>NULL\<close> when no node has it.
\<close>

definition as_node_get_by_name :: "'r as_node list \<Rightarrow> string \<Rightarrow> 'r as_node option" where
  "as_node_get_by_name nodes node_name = find (\<lambda>n. as_node_name n = node_name) nodes"

text \<open>\<^verbatim>\<open>aerospike_scan_node\<close>; \<^verbatim>\<open>as_error_update\<close> returns the code it stores.\<close>

definition aerospike_scan_node ::
    "as_status_codes \<Rightarrow> 'r as_node list \<Rightarrow> string \<Rightarrow> ('r, 'u) scan_callback option
     \<Rightarrow> ('r, 'u) scan_state \<Rightarrow> int \<times> ('r, 'u) scan_state" where
  "aerospike_scan_node K nodes node_name callback st =
     (let st0 = st\<lparr>task_err := AEROSPIKE_OK K\<rparr>
      in case as_node_get_by_name nodes node_name of
           None \<Rightarrow> (AEROSPIKE_ERR_PARAM K, st0\<lparr>task_err := AEROSPIKE_ERR_PARAM K\<rparr>)
         | Some node \<Rightarrow>
             (case as_scan_command_execute K callback node (st0\<lparr>error_mutex := 0\<rparr>) of
                (status, st1) \<Rightarrow> scan_completion K callback status st1))"

section \<open>Concrete inputs\<close>

text \<open>
  An environment in which the resolver knows the two literals 10.0.0.1 and 10.0.0.2,
  every info request is accepted and every allocation succeeds.
\<close>

definition ex_env :: env where
  "ex_env =
     \<lparr>cl_lookup_immediate =
        (\<lambda>h p. if h = ''10.0.0.1'' then Some \<lparr>sin_addr = 0x0A000001, sin_port = word_of_int p\<rparr>
                else if h = ''10.0.0.2'' then Some \<lparr>sin_addr = 0x0A000002, sin_port = word_of_int p\<rparr>
                else None),
      ev2citrusleaf_info_host = (\<lambda>_ _. 0), cf_getms = 10000, event_add = 0, malloc_ok = True\<rparr>"

text \<open>A node in the cluster's list, with its timer armed and one info request in flight.\<close>

definition ex_node :: "string \<Rightarrow> int \<Rightarrow> int \<Rightarrow> sockaddr_in list \<Rightarrow> cl_cluster_node" where
  "ex_node name_s d c addrs =
     \<lparr>node_MAGIC_valid = True, name = name_s, dunned = d, dun_count = c,
      sockaddr_in_v = addrs, conn_q = [], partition_generation = 7,
      partition_last_req_ms = 9000, timer_event_registered = True, rc_count = 3\<rparr>"

definition ex_cluster :: "nat list \<Rightarrow> int \<Rightarrow> ev2citrusleaf_cluster" where
  "ex_cluster nodes n =
     \<lparr>MAGIC_valid = True, follow = True, shutdown = False, base_set = True,
      n_partitions = n, host_str_v = [''10.0.0.1''], host_port_v = [3000], node_v = nodes,
      last_node = 0, requests_in_progress = 0, infos_in_progress = 1, request_q = []\<rparr>"

text \<open>A cluster of 4096 partitions with the one node A at 10.0.0.1:3000.\<close>

definition ex_world :: world where
  "ex_world =
     \<lparr>asc = ex_cluster [0] 4096,
      heap = [ex_node ''A'' 0 0 [\<lparr>sin_addr = 0x0A000001, sin_port = 3000\<rparr>]],
      info_requests = [], restarted = []\<rparr>"

text \<open>The same cluster with a second node B at 10.0.0.2:3000, which is dunned.\<close>

definition ex_world_dunned :: world where
  "ex_world_dunned =
     \<lparr>asc = ex_cluster [0, 1] 4096,
      heap = [ex_node ''A'' 0 0 [\<lparr>sin_addr = 0x0A000001, sin_port = 3000\<rparr>],
              ex_node ''B'' 1 1000 [\<lparr>sin_addr = 0x0A000002, sin_port = 3000\<rparr>]],
      info_requests = [], restarted = []\<rparr>"

text \<open>
  A cluster that knows no node and no partition count yet, after its tender has
  submitted the addresses of two seed hosts to \<^verbatim>\<open>cluster_new_sockaddr\<close>.
\<close>

definition ex_world_probing :: world where
  "ex_world_probing =
     cluster_new_sockaddr ex_env
       (cluster_new_sockaddr ex_env
          \<lparr>asc = (ex_cluster [] 0)\<lparr>host_str_v := [''10.0.0.1'', ''10.0.0.2''],
                                   host_port_v := [3000, 3000], infos_in_progress := 0\<rparr>,
           heap = [], info_requests = [], restarted = []\<rparr>
          \<lparr>sin_addr = 0x0A000001, sin_port = 3000\<rparr>)
       \<lparr>sin_addr = 0x0A000002, sin_port = 3000\<rparr>"

text \<open>
  A choice of status codes that satisfies \<open>status_codes_ok\<close>, a callback that counts the
  records and goes on, one that counts and stops the scan, and the state a scan starts from.
\<close>

definition ex_codes :: as_status_codes where
  "ex_codes =
     \<lparr>AEROSPIKE_OK = 0, AEROSPIKE_ERR_RECORD_NOT_FOUND = 2, AEROSPIKE_NO_MORE_RECORDS = - 3,
      AEROSPIKE_ERR_CLIENT_ABORT = - 5, AEROSPIKE_ERR_SCAN_ABORTED = 15,
      AEROSPIKE_ERR_PARAM = - 2, AEROSPIKE_ERR_SERVER = 1, AEROSPIKE_ERR_CLIENT = - 1\<rparr>"

definition ex_continue :: "(nat, nat) scan_callback" where
  "ex_continue v u = (True, Suc u)"

definition ex_abort :: "(nat, nat) scan_callback" where
  "ex_abort v u = (False, Suc u)"

text \<open>
  A callback that counts the records and stops the scan at record 1 (and goes on at every
  other record).
\<close>

definition ex_abort_first :: "(nat, nat) scan_callback" where
  "ex_abort_first v u = (v \<noteq> Some 1, Suc u)"

definition ex_state :: "(nat, nat) scan_state" where
  "ex_state = \<lparr>udata = 0, calls = [], error_mutex = 0, task_err = 0\<rparr>"

text \<open>A group whose payload holds the given messages, read without error.\<close>

definition ex_group :: "nat as_msg list \<Rightarrow> nat scan_group" where
  "ex_group ms = \<lparr>header_status = 0, proto_sz = 30 * length ms, payload_status = 0, msgs = ms\<rparr>"

text \<open>A node that accepts the command and sends the given groups.\<close>

definition ex_scan_node :: "string \<Rightarrow> nat scan_group list \<Rightarrow> nat as_node" where
  "ex_scan_node name_s gs =
     \<lparr>as_node_name = name_s, connect_status = 0, groups = gs, final_status = 9\<rparr>"

definition ex_msg :: "nat \<Rightarrow> nat as_msg" where
  "ex_msg i = \<lparr>result_code = 0, info3 = 0, msg_record = i\<rparr>"

text \<open>A message with the given result code, and the message that ends a node's stream.\<close>

definition ex_msg_code :: "8 word \<Rightarrow> nat as_msg" where
  "ex_msg_code c = \<lparr>result_code = c, info3 = 0, msg_record = 0\<rparr>"

definition ex_msg_last :: "nat as_msg" where
  "ex_msg_last = \<lparr>result_code = 0, info3 = 1, msg_record = 0\<rparr>"

section \<open>Auxiliary notions\<close>

text \<open>
  The partition count after the lines of a ping response, from the count before them:
  every \<^verbatim>\<open>partitions\<close> field stores its value.
\<close>

fun partitions_fields :: "int \<Rightarrow> string list \<Rightarrow> int" where
  "partitions_fields n [] = n"
| "partitions_fields n (line # rest) =
     partitions_fields
       (case str_split TAB line of
          [name_s, value_s] \<Rightarrow> if name_s = ''partitions'' then atoi value_s else n
        | _ \<Rightarrow> n)
       rest"





text \<open>
  What \<^verbatim>\<open>as_command_execute\<close> returns to a worker that is at a given point, by the
  functions of the serial scan: the status, the code of the worker's \<^verbatim>\<open>as_error\<close> and the
  state. \<open>records_result\<close> takes up \<^verbatim>\<open>as_scan_parse\<close> where \<^verbatim>\<open>as_scan_parse_records\<close> has
  returned.
\<close>

definition records_result ::
    "as_status_codes \<Rightarrow> ('r, 'u) scan_callback option \<Rightarrow> int \<Rightarrow> int \<Rightarrow> 'r scan_group list \<Rightarrow> int
     \<Rightarrow> ('r, 'u) scan_state \<Rightarrow> int \<times> int \<times> ('r, 'u) scan_state" where
  "records_result K callback status err gs fin st =
     (if status \<noteq> AEROSPIKE_OK K
      then (if status = AEROSPIKE_NO_MORE_RECORDS K then AEROSPIKE_OK K else status, err, st)
      else as_scan_parse K callback gs fin err st)"

fun worker_result ::
    "as_status_codes \<Rightarrow> ('r, 'u) scan_callback option \<Rightarrow> 'r worker \<Rightarrow> ('r, 'u) scan_state
     \<Rightarrow> int \<times> int \<times> ('r, 'u) scan_state" where
  "worker_result K callback (W_parse ms gs fin err) st =
     (case as_scan_parse_records K callback ms err st of
        (status, err1, st1) \<Rightarrow> records_result K callback status err1 gs fin st1)"
| "worker_result K callback (W_load ms gs fin err) st =
     (if error_mutex st \<noteq> 0
      then records_result K callback (AEROSPIKE_ERR_SCAN_ABORTED K) (AEROSPIKE_ERR_SCAN_ABORTED K)
             gs fin st
      else case as_scan_parse_records K callback ms err st of
             (status, err1, st1) \<Rightarrow> records_result K callback status err1 gs fin st1)"
| "worker_result K callback (W_exit status err) st = (status, err, st)"
| "worker_result K callback (W_push status) st = (status, status, st)"
| "worker_result K callback W_done st = (0, 0, st)"

text \<open>A pool whose queueing loop is over and that has one worker.\<close>

definition solo ::
    "'r worker \<Rightarrow> ('r, 'u) scan_state \<Rightarrow> int list \<Rightarrow> int \<Rightarrow> ('r, 'u) scan_pool" where
  "solo w st q m = \<lparr>to_queue = [], workers = [w], shared = st, complete_q = q, main_status = m\<rparr>"

section \<open>Properties\<close>

subsection \<open>Health counters\<close>

lemma dun_factor_pos: "0 < dun_factor t"
  by (cases t) simp_all

lemma dun_user_timeout_below:
  "node_MAGIC_valid cn \<Longrightarrow> dunned cn = 0 \<Longrightarrow> dun_count cn + int n \<le> 800 \<Longrightarrow>
   dunned (node_events cn (replicate n (Dun DUN_USER_TIMEOUT))) = 0 \<and>
   dun_count (node_events cn (replicate n (Dun DUN_USER_TIMEOUT))) = dun_count cn + int n \<and>
   node_MAGIC_valid (node_events cn (replicate n (Dun DUN_USER_TIMEOUT)))"
proof (induction n arbitrary: cn)
  case 0
  then show ?case by simp
next
  case (Suc n)
  let ?c = "cl_cluster_node_dun cn DUN_USER_TIMEOUT"
  have step: "node_MAGIC_valid ?c" "dunned ?c = 0" "dun_count ?c = dun_count cn + 1"
    using Suc.prems by (simp_all add: cl_cluster_node_dun_def CL_NODE_DUN_THRESHOLD_def Let_def)
  have "dun_count ?c + int n \<le> 800"
    using Suc.prems step by simp
  from Suc.IH [OF step(1) step(2) this] step(3) show ?case
    by simp
qed

lemma node_events_append: "node_events cn (es @ fs) = node_events (node_events cn es) fs"
  by (induction cn es rule: node_events.induct) simp_all

lemma node_events_invariant:
  "node_MAGIC_valid cn \<Longrightarrow> (dunned cn = 1) = (dun_count cn > 800) \<Longrightarrow>
   (dunned (node_events cn es) = 1) = (dun_count (node_events cn es) > 800)"
proof (induction cn es rule: node_events.induct)
  case (1 cn)
  then show ?case by simp
next
  case (2 cn t es)
  let ?c = "cl_cluster_node_dun cn t"
  have a: "node_MAGIC_valid ?c"
    using "2.prems" by (simp add: cl_cluster_node_dun_def Let_def)
  have b: "(dunned ?c = 1) = (dun_count ?c > 800)"
    using "2.prems" dun_factor_pos [of t]
    by (auto simp: cl_cluster_node_dun_def CL_NODE_DUN_THRESHOLD_def Let_def)
  from "2.IH" [OF a b] show ?case by simp
next
  case (3 cn es)
  let ?c = "cl_cluster_node_ok cn"
  have a: "node_MAGIC_valid ?c" and b: "(dunned ?c = 1) = (dun_count ?c > 800)"
    using "3.prems" by (simp_all add: cl_cluster_node_ok_def)
  from "3.IH" [OF a b] show ?case by simp
qed

text \<open>
  C7. On a node whose accumulator and flag are clear (as \<^verbatim>\<open>cl_cluster_node_create\<close>
  leaves them), after any run of dun and ok events the dunned flag is set exactly when the
  accumulator exceeds 800; 800 user-timeout duns leave the accumulator at 800 and the flag
  clear, and the 801st sets the flag.
\<close>

theorem dun_threshold_800:
  assumes "node_MAGIC_valid cn" and "dun_count cn = 0" and "dunned cn = 0"
  shows "((dunned (node_events cn es) = 1) = (dun_count (node_events cn es) > 800)) \<and>
    dun_count (node_events cn (replicate 800 (Dun DUN_USER_TIMEOUT))) = 800 \<and>
    dunned (node_events cn (replicate 800 (Dun DUN_USER_TIMEOUT))) = 0 \<and>
    dun_count (node_events cn (replicate 801 (Dun DUN_USER_TIMEOUT))) = 801 \<and>
    dunned (node_events cn (replicate 801 (Dun DUN_USER_TIMEOUT))) = 1"
proof -
  let ?c = "node_events cn (replicate 800 (Dun DUN_USER_TIMEOUT))"
  have a: "(dunned (node_events cn es) = 1) = (dun_count (node_events cn es) > 800)"
    using assms by (intro node_events_invariant) simp_all
  have b: "dunned ?c = 0 \<and> dun_count ?c = dun_count cn + int 800 \<and> node_MAGIC_valid ?c"
    using assms by (intro dun_user_timeout_below) simp_all
  have "(801::nat) = Suc 800"
    by simp
  then have r: "replicate 801 (Dun DUN_USER_TIMEOUT) =
      replicate 800 (Dun DUN_USER_TIMEOUT) @ [Dun DUN_USER_TIMEOUT]"
    by (simp only: replicate_Suc replicate_append_same)
  have l: "node_events cn (replicate 801 (Dun DUN_USER_TIMEOUT)) =
      cl_cluster_node_dun ?c DUN_USER_TIMEOUT"
    unfolding r node_events_append by simp
  have c: "dun_count (cl_cluster_node_dun ?c DUN_USER_TIMEOUT) = 801"
    and d: "dunned (cl_cluster_node_dun ?c DUN_USER_TIMEOUT) = 1"
    using b assms
    by (simp_all add: cl_cluster_node_dun_def CL_NODE_DUN_THRESHOLD_def Let_def)
  show ?thesis
    using a b c d assms unfolding l by simp
qed

theorem dun_threshold_800_witness:
  "dunned (node_events (ex_node ''A'' 0 0 []) (replicate 800 (Dun DUN_USER_TIMEOUT))) = 0 \<and>
   dunned (node_events (ex_node ''A'' 0 0 []) (replicate 801 (Dun DUN_USER_TIMEOUT))) = 1 \<and>
   dunned (node_events (ex_node ''A'' 0 0 []) [Dun DUN_INFO_FAIL, Dun DUN_INFO_FAIL, Ok]) \<noteq> 1"
  using dun_threshold_800 [of "ex_node ''A'' 0 0 []" "[Dun DUN_INFO_FAIL, Dun DUN_INFO_FAIL, Ok]"]
  by (simp add: ex_node_def cl_cluster_node_dun_def cl_cluster_node_ok_def
      CL_NODE_DUN_THRESHOLD_def)

subsection \<open>The services list and the follow flag\<close>

lemmas string_eval = TAB_def NEWLINE_def str_split_def atoi_def isspace_def isdigit_def Let_def

lemma follow_ignored_new_sockaddr:
  "cluster_new_sockaddr E (ev2citrusleaf_cluster_follow w b) sin =
   ev2citrusleaf_cluster_follow (cluster_new_sockaddr E w sin) b"
  by (simp add: cluster_new_sockaddr_def ev2citrusleaf_cluster_follow_def Let_def)

lemma follow_ignored_add_host:
  "snd (ev2citrusleaf_cluster_add_host_internal E (ev2citrusleaf_cluster_follow w b) h p) =
   ev2citrusleaf_cluster_follow (snd (ev2citrusleaf_cluster_add_host_internal E w h p)) b"
  by (simp add: ev2citrusleaf_cluster_add_host_internal_def ev2citrusleaf_cluster_follow_def)

lemma follow_ignored_services_loop:
  "services_loop E (ev2citrusleaf_cluster_follow w b) xs =
   ev2citrusleaf_cluster_follow (services_loop E w xs) b"
proof (induction xs arbitrary: w)
  case Nil
  then show ?case by simp
next
  case (Cons x xs)
  have "(case str_split (CHR '':'') x of
          [host_s, port_s] \<Rightarrow>
            (let port = atoi port_s
             in case cl_lookup_immediate E host_s port of
                  Some sin \<Rightarrow>
                    snd (ev2citrusleaf_cluster_add_host_internal E
                           (cluster_new_sockaddr E (ev2citrusleaf_cluster_follow w b) sin)
                           host_s (short_of_int port))
                | None \<Rightarrow> ev2citrusleaf_cluster_follow w b)
        | _ \<Rightarrow> ev2citrusleaf_cluster_follow w b) =
     ev2citrusleaf_cluster_follow
       (case str_split (CHR '':'') x of
          [host_s, port_s] \<Rightarrow>
            (let port = atoi port_s
             in case cl_lookup_immediate E host_s port of
                  Some sin \<Rightarrow>
                    snd (ev2citrusleaf_cluster_add_host_internal E
                           (cluster_new_sockaddr E w sin) host_s (short_of_int port))
                | None \<Rightarrow> w)
        | _ \<Rightarrow> w) b"
    by (simp add: follow_ignored_new_sockaddr follow_ignored_add_host Let_def
        split: list.splits option.splits)
  then show ?case using Cons.IH by simp
qed

text \<open>
  The services list is handled in the same way whatever the follow flag holds: setting
  the flag before the list is parsed or after it gives the same state.
\<close>

lemma follow_ignored_services_parse:
  "cluster_services_parse E (ev2citrusleaf_cluster_follow w b) services =
   ev2citrusleaf_cluster_follow (cluster_services_parse E w services) b"
  by (simp add: cluster_services_parse_def follow_ignored_services_loop)

text \<open>
  C1, at the input where the code departs from it. The cluster has been told not to follow
  (\<^verbatim>\<open>ev2citrusleaf_cluster_follow(asc, false)\<close>) and node A answers its tend request with
  a services list that names 10.0.0.2:3000. The callback still adds 10.0.0.2:3000 to the
  seed hosts and sends a probe to the new address.
\<close>

theorem services_followed_although_follow_false:
  "follow (asc (ev2citrusleaf_cluster_follow ex_world False)) = False \<and>
   host_str_v (asc (node_timer_infocb_fn ex_env (ev2citrusleaf_cluster_follow ex_world False) 0
      (''node'' @ [TAB] @ ''A'' @ [NEWLINE] @ ''services'' @ [TAB] @ ''10.0.0.2:3000'' @ [NEWLINE]) 0))
     = [''10.0.0.1'', ''10.0.0.2''] \<and>
   host_port_v (asc (node_timer_infocb_fn ex_env (ev2citrusleaf_cluster_follow ex_world False) 0
      (''node'' @ [TAB] @ ''A'' @ [NEWLINE] @ ''services'' @ [TAB] @ ''10.0.0.2:3000'' @ [NEWLINE]) 0))
     = [3000, 3000] \<and>
   info_requests (node_timer_infocb_fn ex_env (ev2citrusleaf_cluster_follow ex_world False) 0
      (''node'' @ [TAB] @ ''A'' @ [NEWLINE] @ ''services'' @ [TAB] @ ''10.0.0.2:3000'' @ [NEWLINE]) 0)
     = [\<lparr>req_addr = \<lparr>sin_addr = 0x0A000002, sin_port = 3000\<rparr>, req_names = ''node'',
         req_callback = Cluster_ping_node_fn \<lparr>sin_addr = 0x0A000002, sin_port = 3000\<rparr>\<rparr>]"
  by (simp add: string_eval ex_world_def ex_env_def ex_node_def ex_cluster_def
      ev2citrusleaf_cluster_follow_def node_timer_infocb_fn_def node_upd_def
      cl_cluster_node_ok_def cluster_services_parse_def
      ev2citrusleaf_cluster_add_host_internal_def cluster_new_sockaddr_def short_of_int_def
      cl_cluster_node_release_def)

theorem services_followed_although_follow_false_witness:
  "length (host_str_v (asc (node_timer_infocb_fn ex_env (ev2citrusleaf_cluster_follow ex_world False) 0
      (''node'' @ [TAB] @ ''A'' @ [NEWLINE] @ ''services'' @ [TAB] @ ''10.0.0.2:3000'' @ [NEWLINE]) 0)))
     = 2 \<and>
   length (info_requests (node_timer_infocb_fn ex_env (ev2citrusleaf_cluster_follow ex_world False) 0
      (''node'' @ [TAB] @ ''A'' @ [NEWLINE] @ ''services'' @ [TAB] @ ''10.0.0.2:3000'' @ [NEWLINE]) 0))
     = 1"
  using services_followed_although_follow_false by simp

subsection \<open>The active node count\<close>

text \<open>
  C2, at the input where the code departs from it. Of the two nodes of the cluster, B is
  dunned: the loop counts one active node, and the function returns 2, the size of the
  node list.
\<close>

theorem active_node_count_is_vector_size:
  "active_node_loop (heap ex_world_dunned) (node_v (asc ex_world_dunned)) 0 = 1 \<and>
   ev2citrusleaf_cluster_get_active_node_count (Some ex_world_dunned) = 2"
  by (simp add: ev2citrusleaf_cluster_get_active_node_count_def ex_world_dunned_def
      ex_cluster_def ex_node_def)

lemma active_node_count_general:
  "MAGIC_valid (asc w) \<Longrightarrow>
   ev2citrusleaf_cluster_get_active_node_count (Some w) = int (length (node_v (asc w)))"
  by (simp add: ev2citrusleaf_cluster_get_active_node_count_def)

theorem active_node_count_is_vector_size_witness:
  "ev2citrusleaf_cluster_get_active_node_count (Some ex_world_dunned) \<noteq>
   active_node_loop (heap ex_world_dunned) (node_v (asc ex_world_dunned)) 0"
  using active_node_count_is_vector_size by simp

subsection \<open>Replicas lists\<close>

text \<open>
  C3, at the input where the code departs from it. With 4096 partitions, the entry
  \<^verbatim>\<open>test:4096\<close> passes the check \<^verbatim>\<open>partid > asc->n_partitions\<close>: no warning is logged and
  the entry is handed to \<^verbatim>\<open>cl_partition_table_set\<close> with partition id 4096.
\<close>

theorem partid_n_partitions_is_set:
  "cluster_partitions_process (ex_cluster [0] 4096) 0 ''test:4096'' True =
     [Cl_partition_table_set 0 ''test'' 4096 True]"
  by (simp add: ex_cluster_def cluster_partitions_process_def string_eval)

theorem partid_n_partitions_is_set_witness:
  "Cl_partition_table_set 0 ''test'' 4096 True
     \<in> set (cluster_partitions_process (ex_cluster [0] 4096) 0 ''test:4096'' True)"
  using partid_n_partitions_is_set by simp

lemma partitions_loop_set_bounds:
  "Cl_partition_table_set c ns pid wr' \<in> set (partitions_loop a cn wr xs) \<Longrightarrow>
   length ns \<le> 30 \<and> pid \<le> n_partitions a \<and> c = cn \<and> wr' = wr"
  by (induction xs) (auto simp: Let_def split: list.splits if_splits)

lemma partitions_loop_accepts:
  "x \<in> set xs \<Longrightarrow> str_split (CHR '':'') x = [ns, ps] \<Longrightarrow> length ns \<le> 30 \<Longrightarrow>
   atoi ps \<le> n_partitions a \<Longrightarrow>
   Cl_partition_table_set cn ns (atoi ps) wr \<in> set (partitions_loop a cn wr xs)"
  by (induction xs) (auto simp: Let_def split: list.splits if_splits)

lemma partitions_loop_rejects:
  "x \<in> set xs \<Longrightarrow> str_split (CHR '':'') x = [ns, ps] \<Longrightarrow> length ns > 30 \<Longrightarrow>
   Cf_info_bad_namespace ns \<in> set (partitions_loop a cn wr xs)"
  by (induction xs) (auto simp: Let_def split: list.splits if_splits)

text \<open>
  C4 as stated fails: an entry whose namespace is 31 bytes long is rejected (the check is
  \<^verbatim>\<open>strlen(namespace_s) > 30\<close>).
\<close>

theorem namespace_31_rejected:
  "length ''aaaaaaaaaabbbbbbbbbbccccccccccd'' = 31 \<and>
   cluster_partitions_process (ex_cluster [0] 4096) 0 ''aaaaaaaaaabbbbbbbbbbccccccccccd:1'' False =
     [Cf_info_bad_namespace ''aaaaaaaaaabbbbbbbbbbccccccccccd'']"
  by (simp add: ex_cluster_def cluster_partitions_process_def string_eval)

text \<open>
  C4, amended. For an entry \<open>namespace:partid\<close> of a replicas list: when the namespace is
  at most 30 bytes long (and the partition id passes the range check, as every id below
  the partition count does) the entry is handed to \<^verbatim>\<open>cl_partition_table_set\<close>; when
  the namespace is longer than 30 bytes the entry is rejected with a log message
  (\<^verbatim>\<open>cf_info\<close>) and no cell of that namespace is set. The function returns nothing, so
  no error is propagated.
\<close>

theorem namespace_length_limit_30:
  assumes "partition_str \<in> set (str_split (CHR '';'') partitions)"
    and "str_split (CHR '':'') partition_str = [namespace_s, partid_s]"
  shows "(length namespace_s \<le> 30 \<and> atoi partid_s \<le> n_partitions a \<longrightarrow>
            Cl_partition_table_set cn namespace_s (atoi partid_s) wr
              \<in> set (cluster_partitions_process a cn partitions wr)) \<and>
         (length namespace_s > 30 \<longrightarrow>
            Cf_info_bad_namespace namespace_s \<in> set (cluster_partitions_process a cn partitions wr) \<and>
            (\<forall>c partid wr'. Cl_partition_table_set c namespace_s partid wr'
               \<notin> set (cluster_partitions_process a cn partitions wr)))"
  using assms partitions_loop_accepts [of partition_str _ namespace_s partid_s a cn wr]
    partitions_loop_rejects [of partition_str _ namespace_s partid_s a cn wr]
    partitions_loop_set_bounds [of _ namespace_s _ _ a cn wr]
  unfolding cluster_partitions_process_def
  by (metis linorder_not_less)

theorem namespace_length_limit_30_witness:
  "Cl_partition_table_set 0 ''aaaaaaaaaabbbbbbbbbbcccccccccc'' 2 False
     \<in> set (cluster_partitions_process (ex_cluster [0] 4096) 0
              ''aaaaaaaaaabbbbbbbbbbccccccccccd:1;aaaaaaaaaabbbbbbbbbbcccccccccc:2'' False) \<and>
   Cf_info_bad_namespace ''aaaaaaaaaabbbbbbbbbbccccccccccd''
     \<in> set (cluster_partitions_process (ex_cluster [0] 4096) 0
              ''aaaaaaaaaabbbbbbbbbbccccccccccd:1;aaaaaaaaaabbbbbbbbbbcccccccccc:2'' False)"
  using namespace_length_limit_30 [of "''aaaaaaaaaabbbbbbbbbbcccccccccc:2''"
      "''aaaaaaaaaabbbbbbbbbbccccccccccd:1;aaaaaaaaaabbbbbbbbbbcccccccccc:2''"
      "''aaaaaaaaaabbbbbbbbbbcccccccccc''" "''2''" "ex_cluster [0] 4096" 0 False]
    namespace_length_limit_30 [of "''aaaaaaaaaabbbbbbbbbbccccccccccd:1''"
      "''aaaaaaaaaabbbbbbbbbbccccccccccd:1;aaaaaaaaaabbbbbbbbbbcccccccccc:2''"
      "''aaaaaaaaaabbbbbbbbbbccccccccccd''" "''1''" "ex_cluster [0] 4096" 0 False]
  by (simp add: ex_cluster_def cluster_partitions_process_def string_eval)

subsection \<open>The destroy delay\<close>

text \<open>
  C5 as stated fails: a negative delay and a delay over the limit are not clamped to 0 and
  to 60000 milliseconds; the sleep lasts 100 milliseconds for both.
\<close>

theorem destroy_delay_not_clamped:
  "ev2citrusleaf_cluster_destroy_usleep (ex_cluster [0] 4096) (- 5)
     \<noteq> Some (max 0 (min 60000 (- 5)) * 1000) \<and>
   ev2citrusleaf_cluster_destroy_usleep (ex_cluster [0] 4096) 70000
     \<noteq> Some (max 0 (min 60000 70000) * 1000) \<and>
   ev2citrusleaf_cluster_destroy_usleep (ex_cluster [0] 4096) (- 5) = Some (100 * 1000) \<and>
   ev2citrusleaf_cluster_destroy_usleep (ex_cluster [0] 4096) 70000 = Some (100 * 1000)"
  by (simp add: ev2citrusleaf_cluster_destroy_usleep_def ex_cluster_def)

text \<open>
  C5, amended. When cluster destroy sleeps (the cluster is a valid one and has an event
  base), the sleep lasts \<open>delay_ms\<close> milliseconds when \<open>delay_ms\<close> lies in the range
  [0, 60000], and 100 milliseconds when it is negative or over the limit.
\<close>

theorem destroy_delay_out_of_range_is_100:
  assumes "MAGIC_valid a" and "base_set a"
  shows "ev2citrusleaf_cluster_destroy_usleep a delay_ms =
           Some ((if 0 \<le> delay_ms \<and> delay_ms \<le> 60000 then delay_ms else 100) * 1000)"
  using assms by (auto simp: ev2citrusleaf_cluster_destroy_usleep_def Let_def)

theorem destroy_delay_out_of_range_is_100_witness:
  "ev2citrusleaf_cluster_destroy_usleep (ex_cluster [0] 4096) 60000 = Some 60000000 \<and>
   ev2citrusleaf_cluster_destroy_usleep (ex_cluster [0] 4096) 60001 = Some 100000"
  using destroy_delay_out_of_range_is_100 [of "ex_cluster [0] 4096" 60000]
    destroy_delay_out_of_range_is_100 [of "ex_cluster [0] 4096" 60001]
  by (simp add: ex_cluster_def)

subsection \<open>The partition count\<close>

lemma asc_node_upd: "asc (node_upd w cn f) = asc w"
  by (simp add: node_upd_def)

lemma asc_reserve: "asc (cl_cluster_node_reserve w cn) = asc w"
  by (simp add: cl_cluster_node_reserve_def asc_node_upd)

lemma asc_release: "asc (cl_cluster_node_release w cn) = asc w"
  by (simp add: cl_cluster_node_release_def asc_node_upd)

lemma asc_get_byname: "asc (snd (cl_cluster_node_get_byname w s)) = asc w"
  by (simp add: cl_cluster_node_get_byname_def asc_reserve split: option.splits)

lemma n_partitions_create:
  "n_partitions (asc (snd (cl_cluster_node_create E w s))) = n_partitions (asc w)"
  by (simp add: cl_cluster_node_create_def Let_def asc_reserve asc_release asc_node_upd)

lemma n_partitions_node_line:
  "n_partitions (asc
     (case cl_cluster_node_get_byname w v of
        (found, w1) \<Rightarrow>
          (case (case found of
                   None \<Rightarrow> cl_cluster_node_create E w1 v
                 | Some c \<Rightarrow> (Some c, w1)) of
             (cno, w2) \<Rightarrow>
               (case cno of
                  Some cn \<Rightarrow> cl_cluster_node_release (node_upd w2 cn f) cn
                | None \<Rightarrow> w2)))) = n_partitions (asc w)"
proof -
  obtain found w1 where g: "cl_cluster_node_get_byname w v = (found, w1)"
    by (cases "cl_cluster_node_get_byname w v")
  have w1: "asc w1 = asc w"
    using asc_get_byname [of w v] g by simp
  obtain cno w2 where c: "(case found of
        None \<Rightarrow> cl_cluster_node_create E w1 v | Some c \<Rightarrow> (Some c, w1)) = (cno, w2)"
    by (cases "(case found of
        None \<Rightarrow> cl_cluster_node_create E w1 v | Some c \<Rightarrow> (Some c, w1))")
  have w2: "n_partitions (asc w2) = n_partitions (asc w1)"
    using c n_partitions_create [of E w1 v] by (cases found) auto
  show ?thesis
    using g c w1 w2 by (cases cno) (simp_all add: asc_release asc_node_upd)
qed

lemma ping_line_n_partitions:
  "n_partitions (asc
     (case str_split TAB l of
        [name_s, value_s] \<Rightarrow>
          if name_s = ''node'' then
            (let (found, w1) = cl_cluster_node_get_byname w value_s;
                 (cno, w2) = (case found of
                                None \<Rightarrow> cl_cluster_node_create E w1 value_s
                              | Some c \<Rightarrow> (Some c, w1))
             in case cno of
                  Some cn \<Rightarrow>
                    cl_cluster_node_release
                      (node_upd w2 cn
                         (\<lambda>n. if sa_in \<in> set (sockaddr_in_v n) then n
                              else n\<lparr>sockaddr_in_v := sockaddr_in_v n @ [sa_in]\<rparr>))
                      cn
                | None \<Rightarrow> w2)
          else if name_s = ''partitions'' then
            w\<lparr>asc := (asc w)\<lparr>n_partitions := atoi value_s\<rparr>\<rparr>
          else w
      | _ \<Rightarrow> w)) =
   (case str_split TAB l of
      [name_s, value_s] \<Rightarrow> if name_s = ''partitions'' then atoi value_s else n_partitions (asc w)
    | _ \<Rightarrow> n_partitions (asc w))"
proof (cases "\<exists>name_s value_s. str_split TAB l = [name_s, value_s]")
  case True
  then obtain name_s value_s where p: "str_split TAB l = [name_s, value_s]"
    by blast
  show ?thesis
    unfolding p using n_partitions_node_line [where w = w and v = value_s and E = E]
    by (simp add: Let_def)
next
  case False
  then show ?thesis
    by (auto split: list.splits)
qed

lemma ping_lines_n_partitions:
  "n_partitions (asc (ping_lines E sa_in w ls)) = partitions_fields (n_partitions (asc w)) ls"
proof (induction ls arbitrary: w)
  case Nil
  then show ?case by simp
next
  case (Cons l ls)
  show ?case
    unfolding ping_lines.simps partitions_fields.simps Cons.IH ping_line_n_partitions
    by (rule refl)
qed

lemma cluster_ping_node_fn_n_partitions:
  "\<not> shutdown (asc w) \<Longrightarrow>
   n_partitions (asc (cluster_ping_node_fn E w 0 values sa_in)) =
     partitions_fields (n_partitions (asc w)) (str_split NEWLINE values)"
  by (simp add: cluster_ping_node_fn_def Let_def ping_lines_n_partitions)

text \<open>
  C6 as stated fails. The probes of two new addresses are both sent while the count is
  still 0, so both ask for \<^verbatim>\<open>partitions\<close>. The first response sets the count to 4096; the
  second, which carries 8, is not rejected: it sets the count to 8.
\<close>

theorem n_partitions_overwritten:
  "map req_names (info_requests ex_world_probing) =
     [''node'' @ [NEWLINE] @ ''partitions'', ''node'' @ [NEWLINE] @ ''partitions''] \<and>
   n_partitions (asc (cluster_ping_node_fn ex_env ex_world_probing 0
      (''node'' @ [TAB] @ ''A'' @ [NEWLINE] @ ''partitions'' @ [TAB] @ ''4096'' @ [NEWLINE])
      \<lparr>sin_addr = 0x0A000001, sin_port = 3000\<rparr>)) = 4096 \<and>
   n_partitions (asc (cluster_ping_node_fn ex_env
      (cluster_ping_node_fn ex_env ex_world_probing 0
         (''node'' @ [TAB] @ ''A'' @ [NEWLINE] @ ''partitions'' @ [TAB] @ ''4096'' @ [NEWLINE])
         \<lparr>sin_addr = 0x0A000001, sin_port = 3000\<rparr>) 0
      (''node'' @ [TAB] @ ''B'' @ [NEWLINE] @ ''partitions'' @ [TAB] @ ''8'' @ [NEWLINE])
      \<lparr>sin_addr = 0x0A000002, sin_port = 3000\<rparr>)) = 8"
  by (simp add: ex_world_probing_def cluster_new_sockaddr_def ex_cluster_def ex_env_def
      cluster_ping_node_fn_def cl_cluster_node_get_byname_def cl_cluster_node_create_def
      cl_cluster_node_reserve_def cl_cluster_node_release_def node_upd_def string_eval)

text \<open>
  C6, amended. A probe of a new address asks for the \<^verbatim>\<open>partitions\<close> field only while the
  stored count is 0. A ping response that is processed (return value 0, cluster not shut
  down) stores the value of every \<^verbatim>\<open>partitions\<close> field it carries, whatever the stored
  count was: the last field wins, and a response without the field leaves the count as it
  was.
\<close>

theorem n_partitions_every_field_stored:
  assumes "return_value = 0" and "\<not> shutdown (asc w)"
  shows "n_partitions (asc (cluster_ping_node_fn E w return_value values sa_in)) =
           partitions_fields (n_partitions (asc w)) (str_split NEWLINE values) \<and>
         (\<forall>r \<in> set (info_requests (cluster_new_sockaddr E w new_sin)) - set (info_requests w).
            req_names r = (if n_partitions (asc w) = 0 then ''node'' @ [NEWLINE] @ ''partitions''
                           else ''node''))"
  using assms cluster_ping_node_fn_n_partitions [of w E _ sa_in]
  by (auto simp: cluster_new_sockaddr_def NEWLINE_def Let_def)

theorem n_partitions_every_field_stored_witness:
  "n_partitions (asc (cluster_ping_node_fn ex_env ex_world 0
      (''node'' @ [TAB] @ ''A'' @ [NEWLINE] @ ''partitions'' @ [TAB] @ ''8'' @ [NEWLINE])
      \<lparr>sin_addr = 0x0A000001, sin_port = 3000\<rparr>)) = 8 \<and>
   n_partitions (asc ex_world) = 4096"
  using n_partitions_every_field_stored [of 0 ex_world ex_env
      "''node'' @ [TAB] @ ''A'' @ [NEWLINE] @ ''partitions'' @ [TAB] @ ''8'' @ [NEWLINE]"
      "\<lparr>sin_addr = 0x0A000001, sin_port = 3000\<rparr>"
      "\<lparr>sin_addr = 0x0A000002, sin_port = 3000\<rparr>"]
  by (simp add: ex_world_def ex_cluster_def string_eval)

section \<open>Properties of the scan executor\<close>

subsection \<open>Records that end a node's scan\<close>

lemma uint_nonzero: "(w :: 'a::len word) \<noteq> 0 \<Longrightarrow> uint w \<noteq> 0"
  by (simp add: uint_0_iff)

lemma uint_not_negative: "n < 0 \<Longrightarrow> uint (w :: 'a::len word) \<noteq> n"
  using uint_ge_0 [of w] by linarith

lemma parse_records_append:
  assumes "status_codes_ok K"
  shows "as_scan_parse_records K cb pre err st = (AEROSPIKE_OK K, e1, s1) \<Longrightarrow>
   as_scan_parse_records K cb (pre @ xs) err st = as_scan_parse_records K cb xs e1 s1"
proof (induction pre arbitrary: err st)
  case Nil
  then show ?case by simp
next
  case (Cons m pre)
  have ok: "AEROSPIKE_OK K = 0" and nm: "AEROSPIKE_NO_MORE_RECORDS K \<noteq> 0"
    and sa: "AEROSPIKE_ERR_SCAN_ABORTED K \<noteq> 0"
    using assms by (auto simp: status_codes_ok_def)
  show ?case
  proof (cases "result_code m \<noteq> 0")
    case True
    then show ?thesis using Cons.prems ok nm uint_nonzero [of "result_code m"]
      by (auto split: if_splits)
  next
    case False
    show ?thesis
    proof (cases "info3 m AND AS_MSG_INFO3_LAST \<noteq> 0")
      case True
      then show ?thesis using Cons.prems False ok nm by auto
    next
      case last: False
      obtain status st' where r: "as_scan_parse_record K cb m st = (status, st')"
        by (cases "as_scan_parse_record K cb m st")
      show ?thesis using Cons.prems False last r ok sa Cons.IH [of err st']
        by (auto split: if_splits)
    qed
  qed
qed

lemma groups_pass_append:
  "scan_groups_pass K cb gs err st = Some (e1, s1) \<Longrightarrow>
   as_scan_parse K cb (gs @ hs) fin err st = as_scan_parse K cb hs fin e1 s1"
proof (induction gs arbitrary: err st)
  case Nil
  then show ?case by simp
next
  case (Cons g gs)
  then show ?case
    by (auto split: sum.splits prod.splits)
qed

text \<open>
  C8. The loop of \<^verbatim>\<open>as_scan_parse\<close> has passed the groups \<open>gs\<close> and, in the group \<open>g\<close>,
  the records \<open>pre\<close> (they were delivered and the scan went on), and comes to the record
  \<open>m\<close>. The result code is looked at first. When the result code of \<open>m\<close> is
  \<^verbatim>\<open>NOT_FOUND\<close>, or it is 0 and the \<^verbatim>\<open>LAST\<close> bit of \<open>info3\<close> is set, the node's scan
  returns OK in the state reached before \<open>m\<close>: nothing of \<open>m\<close>, of the records after it
  or of the groups after \<open>g\<close> is delivered. When the result code is any other value than
  0, the node's scan returns that result code, again in the state reached before \<open>m\<close>.
\<close>

theorem scan_record_ends_or_fails:
  assumes codes: "status_codes_ok K"
    and pass: "scan_groups_pass K cb gs err st = Some (err1, st1)"
    and g: "header_status g = 0" "proto_sz g > 0" "payload_status g = 0"
      "msgs g = pre @ m # post"
    and pre: "as_scan_parse_records K cb pre err1 st1 = (AEROSPIKE_OK K, err2, st2)"
  shows "(uint (result_code m) = AEROSPIKE_ERR_RECORD_NOT_FOUND K \<or>
          (result_code m = 0 \<and> info3 m AND AS_MSG_INFO3_LAST \<noteq> 0) \<longrightarrow>
            as_scan_parse K cb (gs @ g # rest) fin err st = (AEROSPIKE_OK K, err2, st2)) \<and>
         (result_code m \<noteq> 0 \<and> uint (result_code m) \<noteq> AEROSPIKE_ERR_RECORD_NOT_FOUND K \<longrightarrow>
            as_scan_parse K cb (gs @ g # rest) fin err st =
              (uint (result_code m), uint (result_code m), st2))"
proof -
  have nz: "result_code m \<noteq> 0 \<Longrightarrow> uint (result_code m) \<noteq> 0"
    by (rule uint_nonzero)
  have le: "uint (result_code m) \<noteq> AEROSPIKE_NO_MORE_RECORDS K"
    using codes by (intro uint_not_negative) (simp add: status_codes_ok_def)
  have nf: "uint (result_code m) = AEROSPIKE_ERR_RECORD_NOT_FOUND K \<Longrightarrow> result_code m \<noteq> 0"
    using codes by (auto simp: status_codes_ok_def)
  have a: "as_scan_parse K cb (gs @ g # rest) fin err st =
      as_scan_parse K cb (g # rest) fin err1 st1"
    by (rule groups_pass_append [OF pass])
  have b: "as_scan_parse_records K cb (msgs g) err1 st1 =
      as_scan_parse_records K cb (m # post) err2 st2"
    unfolding g(4) by (rule parse_records_append [OF codes pre])
  show ?thesis
    unfolding a using codes g(1,2,3) b nz le nf
    by (auto simp: as_scan_parse_group_def status_codes_ok_def)
qed

lemmas scan_eval = ex_codes_def ex_continue_def ex_abort_def ex_state_def ex_group_def
  ex_scan_node_def ex_msg_def ex_msg_code_def ex_msg_last_def status_codes_ok_def
  as_scan_parse_group_def as_scan_parse_record_def invoke_callback_def AS_MSG_INFO3_LAST_def
  as_command_execute_def as_scan_command_execute_def scan_nodes_def scan_completion_def
  as_scan_generic_def Let_def

theorem scan_record_ends_or_fails_witness:
  "as_scan_parse ex_codes (Some ex_continue)
     ([ex_group [ex_msg 1]] @ ex_group [ex_msg 2, ex_msg_code 2, ex_msg 3] # [ex_group [ex_msg 4]])
     9 0 ex_state =
     (0, 0, \<lparr>udata = 2, calls = [(Some 1, True), (Some 2, True)], error_mutex = 0, task_err = 0\<rparr>) \<and>
   as_scan_parse ex_codes (Some ex_continue)
     ([ex_group [ex_msg 1]] @ ex_group [ex_msg 2, ex_msg_last, ex_msg 3] # [ex_group [ex_msg 4]])
     9 0 ex_state =
     (0, 0, \<lparr>udata = 2, calls = [(Some 1, True), (Some 2, True)], error_mutex = 0, task_err = 0\<rparr>) \<and>
   as_scan_parse ex_codes (Some ex_continue)
     ([ex_group [ex_msg 1]] @ ex_group [ex_msg 2, ex_msg_code 1, ex_msg 3] # [ex_group [ex_msg 4]])
     9 0 ex_state =
     (1, 1, \<lparr>udata = 2, calls = [(Some 1, True), (Some 2, True)], error_mutex = 0, task_err = 0\<rparr>)"
  using scan_record_ends_or_fails [where K = ex_codes and cb = "Some ex_continue"
      and gs = "[ex_group [ex_msg 1]]" and err = 0 and st = ex_state and ?err1.0 = 0
      and ?st1.0 = "\<lparr>udata = 1, calls = [(Some 1, True)], error_mutex = 0, task_err = 0\<rparr>"
      and g = "ex_group [ex_msg 2, ex_msg_code 2, ex_msg 3]" and pre = "[ex_msg 2]"
      and m = "ex_msg_code 2" and post = "[ex_msg 3]" and ?err2.0 = 0
      and ?st2.0 = "\<lparr>udata = 2, calls = [(Some 1, True), (Some 2, True)], error_mutex = 0,
                     task_err = 0\<rparr>"
      and rest = "[ex_group [ex_msg 4]]" and fin = 9]
    scan_record_ends_or_fails [where K = ex_codes and cb = "Some ex_continue"
      and gs = "[ex_group [ex_msg 1]]" and err = 0 and st = ex_state and ?err1.0 = 0
      and ?st1.0 = "\<lparr>udata = 1, calls = [(Some 1, True)], error_mutex = 0, task_err = 0\<rparr>"
      and g = "ex_group [ex_msg 2, ex_msg_last, ex_msg 3]" and pre = "[ex_msg 2]"
      and m = "ex_msg_last" and post = "[ex_msg 3]" and ?err2.0 = 0
      and ?st2.0 = "\<lparr>udata = 2, calls = [(Some 1, True), (Some 2, True)], error_mutex = 0,
                     task_err = 0\<rparr>"
      and rest = "[ex_group [ex_msg 4]]" and fin = 9]
    scan_record_ends_or_fails [where K = ex_codes and cb = "Some ex_continue"
      and gs = "[ex_group [ex_msg 1]]" and err = 0 and st = ex_state and ?err1.0 = 0
      and ?st1.0 = "\<lparr>udata = 1, calls = [(Some 1, True)], error_mutex = 0, task_err = 0\<rparr>"
      and g = "ex_group [ex_msg 2, ex_msg_code 1, ex_msg 3]" and pre = "[ex_msg 2]"
      and m = "ex_msg_code 1" and post = "[ex_msg 3]" and ?err2.0 = 0
      and ?st2.0 = "\<lparr>udata = 2, calls = [(Some 1, True), (Some 2, True)], error_mutex = 0,
                     task_err = 0\<rparr>"
      and rest = "[ex_group [ex_msg 4]]" and fin = 9]
  by (simp add: scan_eval)

subsection \<open>A node name that matches no node\<close>

text \<open>
  C10. When no node of the cluster has the name \<open>node_name\<close>, \<^verbatim>\<open>aerospike_scan_node\<close>
  returns \<^verbatim>\<open>AEROSPIKE_ERR_PARAM\<close>, and the callback is not invoked at all: the record of
  calls and the user data are as they were.
\<close>

theorem scan_node_unknown_name:
  assumes "\<forall>n \<in> set nodes. as_node_name n \<noteq> node_name"
  shows "fst (aerospike_scan_node K nodes node_name callback st) = AEROSPIKE_ERR_PARAM K \<and>
         calls (snd (aerospike_scan_node K nodes node_name callback st)) = calls st \<and>
         udata (snd (aerospike_scan_node K nodes node_name callback st)) = udata st"
proof -
  have "find (\<lambda>n. as_node_name n = node_name) nodes = None"
    using assms by (simp add: find_None_iff)
  then show ?thesis
    by (simp add: aerospike_scan_node_def as_node_get_by_name_def Let_def)
qed

theorem scan_node_unknown_name_witness:
  "fst (aerospike_scan_node ex_codes
          [ex_scan_node ''A'' [ex_group [ex_msg 1]], ex_scan_node ''B'' [ex_group [ex_msg 2]]]
          ''Z'' (Some ex_continue) ex_state) = - 2 \<and>
   calls (snd (aerospike_scan_node ex_codes
          [ex_scan_node ''A'' [ex_group [ex_msg 1]], ex_scan_node ''B'' [ex_group [ex_msg 2]]]
          ''Z'' (Some ex_continue) ex_state)) = []"
  using scan_node_unknown_name [of
      "[ex_scan_node ''A'' [ex_group [ex_msg 1]], ex_scan_node ''B'' [ex_group [ex_msg 2]]]"
      "''Z''" ex_codes "Some ex_continue" ex_state]
  by (simp add: ex_scan_node_def ex_codes_def ex_state_def)

subsection \<open>The calls of the callback in the scan of a node\<close>














subsection \<open>The threads of a concurrent scan\<close>

text \<open>A schedule can pick any thread that can take a step.\<close>

lemma pick_any: "t \<in> set ts \<Longrightarrow> \<exists>c. pick ts (c # schedule) = t"
proof -
  assume "t \<in> set ts"
  then obtain i where "i < length ts" "ts ! i = t"
    by (auto simp: in_set_conv_nth)
  then have "pick ts (i # schedule) = t"
    by (simp add: pick_def)
  then show ?thesis ..
qed
















text \<open>
  The steps of a worker and the functions of the serial scan agree. A worker that runs
  alone goes through the points of \<open>worker_step\<close> to the result that
  \<^verbatim>\<open>as_scan_command_execute\<close> gives, so that a concurrent scan of a cluster of one node is,
  under every schedule, the serial scan of it.
\<close>

lemma worker_result_return:
  "worker_result K cb (records_return K s e gs fin) st = records_result K cb s e gs fin st"
  by (simp add: records_return_def records_result_def)

lemma worker_step_result:
  assumes "worker_step K cb w st = (w', st', p)"
    and "w \<noteq> W_done" and "\<forall>s. w \<noteq> W_push s" and "\<forall>s e. w \<noteq> W_exit s e"
  shows "worker_result K cb w' st' = worker_result K cb w st"
proof (cases w)
  case (W_parse ms gs fin err)
  show ?thesis
  proof (cases ms)
    case Nil
    show ?thesis
    proof (cases gs)
      case Nil
      then show ?thesis using assms(1) W_parse \<open>ms = []\<close>
        by (auto simp: records_result_def)
    next
      case (Cons g gs')
      then show ?thesis using assms(1) W_parse \<open>ms = []\<close>
        by (auto simp: records_result_def as_scan_parse_group_def split: if_splits prod.splits)
    qed
  next
    case (Cons m rest)
    obtain s st1 where r: "as_scan_parse_record K cb m st = (s, st1)"
      by (cases "as_scan_parse_record K cb m st")
    show ?thesis using assms(1) W_parse Cons r
      by (auto simp: worker_result_return split: if_splits)
  qed
next
  case (W_load ms gs fin err)
  then show ?thesis using assms(1)
    by (auto simp: worker_result_return split: if_splits)
qed (use assms in auto)

lemma worker_step_parsing:
  "worker_step K cb w st = (w', st', p) \<Longrightarrow> w \<noteq> W_done \<Longrightarrow> \<forall>s. w \<noteq> W_push s \<Longrightarrow>
   \<forall>s e. w \<noteq> W_exit s e \<Longrightarrow> p = None \<and> (\<forall>s. w' \<noteq> W_push s) \<and> w' \<noteq> W_done"
  by (induction K cb w st rule: worker_step.induct)
     (auto simp: records_return_def split: if_splits prod.splits)

lemma solo_step:
  assumes "w \<noteq> W_done" and "worker_step K cb w st = (w', st', p)"
  shows "pool_run K cb queue_rc sch (solo w st q m) =
         pool_run K cb queue_rc (tl sch)
           (solo w' st' (q @ (case p of None \<Rightarrow> [] | Some r \<Rightarrow> [r])) m)"
proof -
  have e: "enabled (solo w st q m) = [Worker 0]"
    using assms(1) by (cases w) (simp_all add: enabled_def solo_def)
  have pk: "pick [Worker 0] sch = Worker 0"
    by (simp add: pick_def split: list.splits)
  have "pool_run K cb queue_rc sch (solo w st q m) =
        pool_run K cb queue_rc (tl sch) (pool_step K cb queue_rc (Worker 0) (solo w st q m))"
    by (subst pool_run.simps) (simp only: e pk list.simps if_False)
  then show ?thesis
    using assms(2) by (simp add: solo_def)
qed

lemma solo_done: "pool_run K cb queue_rc sch (solo W_done st q m) = solo W_done st q m"
  by (subst pool_run.simps) (simp add: enabled_def solo_def)

lemma solo_to_exit:
  "P = solo w st q m \<Longrightarrow> \<forall>s. w \<noteq> W_push s \<Longrightarrow> w \<noteq> W_done \<Longrightarrow>
   worker_result K cb w st = (s, e, st1) \<Longrightarrow>
   \<exists>sch'. pool_run K cb queue_rc sch P =
           pool_run K cb queue_rc sch' (solo (W_exit s e) st1 q m)"
proof (induction K cb queue_rc sch P arbitrary: w st rule: pool_run.induct)
  case (1 K callback queue_rc schedule P)
  show ?case
  proof (cases "\<exists>s0 e0. w = W_exit s0 e0")
    case True
    then show ?thesis using "1.prems" by auto
  next
    case False
    obtain w' st' p where s: "worker_step K callback w st = (w', st', p)"
      by (cases "worker_step K callback w st")
    have r: "worker_result K callback w' st' = (s, e, st1)"
      using worker_step_result [OF s "1.prems"(3) "1.prems"(2)] False "1.prems"(4) by simp
    have p: "p = None" and w': "\<forall>s. w' \<noteq> W_push s" "w' \<noteq> W_done"
      using worker_step_parsing [OF s "1.prems"(3) "1.prems"(2)] False by simp_all
    have en: "enabled P = [Worker 0]"
      using "1.prems"(1,3) by (cases w) (simp_all add: enabled_def solo_def)
    then have pk: "pick (enabled P) schedule = Worker 0"
      by (simp add: pick_def split: list.splits)
    have ps: "pool_step K callback queue_rc (pick (enabled P) schedule) P = solo w' st' q m"
      using pk "1.prems"(1) s p by (simp add: solo_def)
    have ne: "enabled P \<noteq> []"
      using en by simp
    from "1.IH" [OF ne ps w' r] obtain sch' where
      "pool_run K callback queue_rc (tl schedule) (solo w' st' q m) =
       pool_run K callback queue_rc sch' (solo (W_exit s e) st1 q m)"
      using ps by auto
    then show ?thesis
      using solo_step [OF "1.prems"(3) s, of queue_rc schedule q m] p "1.prems"(1) by auto
  qed
qed

lemma solo_exit:
  "pool_run K cb queue_rc sch (solo (W_exit s e) st q m) =
   solo W_done
     (if s \<noteq> 0
      then st\<lparr>error_mutex := 1,
              task_err := (if error_mutex st = 0 \<and> s \<noteq> AEROSPIKE_ERR_CLIENT_ABORT K
                           then e else task_err st)\<rparr>
      else st) (q @ [s]) m"
proof -
  obtain st' where s1: "worker_step K cb (W_exit s e) st = (W_push s, st', None)"
    and st': "st' = (if s \<noteq> 0
      then st\<lparr>error_mutex := 1,
              task_err := (if error_mutex st = 0 \<and> s \<noteq> AEROSPIKE_ERR_CLIENT_ABORT K
                           then e else task_err st)\<rparr>
      else st)"
    by simp
  have s2: "worker_step K cb (W_push s) st' = (W_done, st', Some s)"
    by simp
  show ?thesis
    using solo_step [OF _ s1, of queue_rc sch q m] solo_step [OF _ s2, of queue_rc "tl sch" q m]
      solo_done [of K cb queue_rc "tl (tl sch)" st' "q @ [s]" m] st'
    by simp
qed

lemma concurrent_single_node:
  assumes "queue_rc 0 = 0"
  shows "scan_nodes K True cb queue_rc sch [node] st =
         scan_nodes K False cb queue_rc sch [node] st"
proof -
  let ?w = "worker_init K node"
  obtain s e st1 where r: "as_command_execute K cb node (AEROSPIKE_OK K) st = (s, e, st1)"
    by (cases "as_command_execute K cb node (AEROSPIKE_OK K) st") auto
  have wr: "worker_result K cb ?w st = (s, e, st1)"
    using r by (auto simp: worker_init_def as_command_execute_def records_result_def)
  have nd: "\<forall>s. ?w \<noteq> W_push s" "?w \<noteq> W_done"
    by (simp_all add: worker_init_def)
  have i: "pool_run K cb queue_rc sch (pool_init K [node] st) =
      pool_run K cb queue_rc (tl sch) (solo ?w st [] (AEROSPIKE_OK K))"
    using assms
    by (subst pool_run.simps)
       (simp add: pool_init_def enabled_def pick_def solo_def split: list.splits)
  from solo_to_exit [OF refl nd wr, of queue_rc "tl sch" "[]" "AEROSPIKE_OK K"] obtain sch' where
    "pool_run K cb queue_rc (tl sch) (solo ?w st [] (AEROSPIKE_OK K)) =
     pool_run K cb queue_rc sch' (solo (W_exit s e) st1 [] (AEROSPIKE_OK K))"
    by blast
  then have "pool_run K cb queue_rc sch (pool_init K [node] st) =
     solo W_done
       (if s \<noteq> 0
        then st1\<lparr>error_mutex := 1,
                task_err := (if error_mutex st1 = 0 \<and> s \<noteq> AEROSPIKE_ERR_CLIENT_ABORT K
                             then e else task_err st1)\<rparr>
        else st1) [s] (AEROSPIKE_OK K)"
    using i solo_exit [of K cb queue_rc sch' s e st1 "[]" "AEROSPIKE_OK K"] by simp
  then show ?thesis
    using r by (auto simp: scan_nodes_def solo_def as_scan_command_execute_def Let_def)
qed

subsection \<open>User abort and the end-of-stream callback\<close>

lemmas pool_eval = pool_run.simps pool_init_def enabled_def pick_def worker_init_def
  records_return_def ex_abort_first_def

text \<open>
  Two runs in which the callback returns false, no node fails, and the caller does not
  get OK.

  A concurrent scan of two nodes that hold the records 1, 3 and 2, 4. The worker of the
  first node gets false at record 1 and sets the mutex. The worker of the second node,
  whose callback has returned true for record 2, then finds the mutex set, ends with
  \<^verbatim>\<open>AEROSPIKE_ERR_SCAN_ABORTED\<close> and pushes its result before the first worker pushes
  \<^verbatim>\<open>AEROSPIKE_ERR_CLIENT_ABORT\<close>. The scan returns \<^verbatim>\<open>AEROSPIKE_ERR_SCAN_ABORTED\<close>, the
  caller's error is left at OK, and the callback is not invoked with \<^verbatim>\<open>NULL\<close>. When the
  first worker pushes first, the same scan returns OK.
\<close>

lemma user_abort_race:
  "as_scan_generic ex_codes
     [ex_scan_node ''A'' [ex_group [ex_msg 1, ex_msg 3]],
      ex_scan_node ''B'' [ex_group [ex_msg 2, ex_msg 4]]]
     True (\<lambda>i. 0) [0, 0, 0, 0, 0, 1, 1, 1, 1, 1, 1] (Some ex_abort_first) ex_state =
     (15, \<lparr>udata = 2, calls = [(Some 1, False), (Some 2, True)], error_mutex = 1,
            task_err = 0\<rparr>) \<and>
   as_scan_generic ex_codes
     [ex_scan_node ''A'' [ex_group [ex_msg 1, ex_msg 3]],
      ex_scan_node ''B'' [ex_group [ex_msg 2, ex_msg 4]]]
     True (\<lambda>i. 0) [0, 0, 0, 0, 0, 0, 1, 1, 1, 1] (Some ex_abort_first) ex_state =
     (0, \<lparr>udata = 3, calls = [(Some 1, False), (Some 2, True), (None, True)], error_mutex = 1,
           task_err = 0\<rparr>)"
  by (simp add: scan_eval pool_eval)

text \<open>
  \<^verbatim>\<open>aerospike_scan_node\<close> has no step that turns \<^verbatim>\<open>AEROSPIKE_ERR_CLIENT_ABORT\<close> into OK: it
  returns the status of \<^verbatim>\<open>as_scan_command_execute\<close> as it is.
\<close>

lemma scan_node_abort_returned:
  "aerospike_scan_node ex_codes [ex_scan_node ''A'' [ex_group [ex_msg 1, ex_msg 2]]] ''A''
     (Some ex_abort) ex_state =
     (- 5, \<lparr>udata = 1, calls = [(Some 1, False)], error_mutex = 1, task_err = 0\<rparr>)"
  by (simp add: scan_eval aerospike_scan_node_def as_node_get_by_name_def)




end
